theory Spec2Isabelle
  imports Complex_Main "HOL-Library.AList"
begin

section \<open>JavaScript values\<close>

text \<open>
  The values the worker handles: what \<^verbatim>\<open>JSON.parse\<close> produces (numbers by their exact
  finite value, \<open>0\<close> standing for both zeros; \<^verbatim>\<open>NaN\<close> cannot come out of JSON, and a literal
  too large for a finite number is left out), \<^verbatim>\<open>undefined\<close>, and the two values of
  the document store: the sentinel \<^verbatim>\<open>FieldValue.serverTimestamp()\<close> and the timestamp the
  store puts in its place when it writes. An object is the list of its fields; a field is
  read with \<open>map_of\<close>.
\<close>

datatype jsval =
    JUndefined
  | JNull
  | JBool bool
  | JNum rat
  | JStr string
  | JArr "jsval list"
  | JObj "(string \<times> jsval) list"
  | ServerTimestamp
  | Timestamp nat

text \<open>What is thrown: \<^verbatim>\<open>new Error(msg)\<close> of the source, a \<^verbatim>\<open>TypeError\<close> of the engine, or an
  exception of the platform or of a library (\<^verbatim>\<open>fetch\<close>, \<^verbatim>\<open>response.json()\<close>, the store client,
  zod), each with its message.\<close>

datatype js_error = Error string | TypeError string | Thrown string

fun message :: "js_error \<Rightarrow> string" where
  "message (Error m) = m"
| "message (TypeError m) = m"
| "message (Thrown m) = m"

text \<open>\<^verbatim>\<open>!v\<close> is \<open>\<not> truthy v\<close>.\<close>

fun truthy :: "jsval \<Rightarrow> bool" where
  "truthy JUndefined = False"
| "truthy JNull = False"
| "truthy (JBool b) = b"
| "truthy (JNum n) = (n \<noteq> 0)"
| "truthy (JStr s) = (s \<noteq> [])"
| "truthy (JArr xs) = True"
| "truthy (JObj fs) = True"
| "truthy ServerTimestamp = True"
| "truthy (Timestamp t) = True"

definition field :: "(string \<times> jsval) list \<Rightarrow> string \<Rightarrow> jsval" where
  "field fs p = (case map_of fs p of None \<Rightarrow> JUndefined | Some v \<Rightarrow> v)"

definition cannot_read :: "string \<Rightarrow> string \<Rightarrow> string" where
  "cannot_read base p = ''Cannot read properties of '' @ base @ '' (reading '' @ [CHR 0x27] @ p @ [CHR 0x27] @ '')''"

text \<open>\<^verbatim>\<open>v.p\<close>, for a name \<open>p\<close> that is no built-in property of strings, arrays or numbers
  (the source reads \<^verbatim>\<open>destination\<close>, \<^verbatim>\<open>durationDays\<close>, \<^verbatim>\<open>choices\<close>, \<^verbatim>\<open>error\<close>, \<^verbatim>\<open>message\<close>,
  \<^verbatim>\<open>content\<close> and \<^verbatim>\<open>itinerary\<close>).\<close>

fun js_prop :: "jsval \<Rightarrow> string \<Rightarrow> js_error + jsval" where
  "js_prop JUndefined p = Inl (TypeError (cannot_read ''undefined'' p))"
| "js_prop JNull p = Inl (TypeError (cannot_read ''null'' p))"
| "js_prop (JObj fs) p = Inr (field fs p)"
| "js_prop v p = Inr JUndefined"

text \<open>\<^verbatim>\<open>v?.p\<close>\<close>

fun js_opt_prop :: "jsval \<Rightarrow> string \<Rightarrow> jsval" where
  "js_opt_prop (JObj fs) p = field fs p"
| "js_opt_prop v p = JUndefined"

text \<open>\<^verbatim>\<open>v[0]\<close>\<close>

fun js_index0 :: "jsval \<Rightarrow> js_error + jsval" where
  "js_index0 JUndefined = Inl (TypeError (cannot_read ''undefined'' ''0''))"
| "js_index0 JNull = Inl (TypeError (cannot_read ''null'' ''0''))"
| "js_index0 (JArr xs) = Inr (case xs of [] \<Rightarrow> JUndefined | x # _ \<Rightarrow> x)"
| "js_index0 (JStr s) = Inr (case s of [] \<Rightarrow> JUndefined | c # _ \<Rightarrow> JStr [c])"
| "js_index0 (JObj fs) = Inr (field fs ''0'')"
| "js_index0 v = Inr JUndefined"

text \<open>What the runtime computes and the source does not spell out: \<^verbatim>\<open>JSON.parse\<close> on a string
  (\<open>None\<close> when it throws), the decimal text of a number, and the message of the
  \<^verbatim>\<open>ZodError\<close> raised for a rejected value.\<close>

record runtime =
  json_parse :: "string \<Rightarrow> jsval option"
  number_text :: "rat \<Rightarrow> string"
  zod_message :: "jsval \<Rightarrow> string"

fun join_comma :: "string list \<Rightarrow> string" where
  "join_comma [] = []"
| "join_comma [s] = s"
| "join_comma (s # t # ss) = s @ '','' @ join_comma (t # ss)"

text \<open>The string a template literal, or \<^verbatim>\<open>JSON.parse\<close>, makes of its argument.\<close>

fun ToString :: "runtime \<Rightarrow> jsval \<Rightarrow> string" where
  "ToString rt JUndefined = ''undefined''"
| "ToString rt JNull = ''null''"
| "ToString rt (JBool b) = (if b then ''true'' else ''false'')"
| "ToString rt (JNum n) = number_text rt n"
| "ToString rt (JStr s) = s"
| "ToString rt (JArr xs) =
     join_comma (map (\<lambda>x. if x = JUndefined \<or> x = JNull then [] else ToString rt x) xs)"
| "ToString rt (JObj fs) = ''[object Object]''"
| "ToString rt ServerTimestamp = ''[object Object]''"
| "ToString rt (Timestamp t) = ''[object Object]''"

section \<open>The model call and its retry loop\<close>

text \<open>What one \<^verbatim>\<open>fetch\<close> of the generation service does: it rejects, or it gives a response
  with a status (\<^verbatim>\<open>response.ok\<close> is a status in 200..299) whose \<^verbatim>\<open>json()\<close> rejects or gives
  a value.\<close>

datatype fetch_result = FetchThrows string | FetchResponse nat "string + jsval"

definition response_ok :: "nat \<Rightarrow> bool" where
  "response_ok st = (200 \<le> st \<and> st \<le> 299)"

text \<open>The body of the \<^verbatim>\<open>try\<close> in the loop of \<^verbatim>\<open>callOpenAI\<close>: \<open>Inr\<close> is the value returned,
  \<open>Inl\<close> the exception that reaches the \<^verbatim>\<open>catch\<close>.\<close>

definition callOpenAI_attempt :: "runtime \<Rightarrow> fetch_result \<Rightarrow> js_error + jsval" where
  "callOpenAI_attempt rt res =
     (case res of
        FetchThrows m \<Rightarrow> Inl (Thrown m)
      | FetchResponse st body \<Rightarrow>
          if \<not> response_ok st then
            (case body of
               Inl m \<Rightarrow> Inl (Thrown m)
             | Inr errorData \<Rightarrow>
                 (case js_prop errorData ''error'' of
                    Inl e \<Rightarrow> Inl e
                  | Inr err \<Rightarrow>
                      let msg = js_opt_prop err ''message'' in
                      Inl (Error (''OpenAI API error: '' @ ToString rt (JNum (of_nat st)) @ '' - ''
                            @ ToString rt (if truthy msg then msg else JStr ''Unknown error'')))))
          else
            (case body of
               Inl m \<Rightarrow> Inl (Thrown m)
             | Inr data \<Rightarrow>
                 (case js_prop data ''choices'' of
                    Inl e \<Rightarrow> Inl e
                  | Inr choices \<Rightarrow>
                      (case js_index0 choices of
                         Inl e \<Rightarrow> Inl e
                       | Inr choice \<Rightarrow>
                           let content = js_opt_prop (js_opt_prop choice ''message'') ''content'' in
                           if \<not> truthy content then Inl (Error ''No content received from OpenAI'')
                           else
                             (case json_parse rt (ToString rt content) of
                                Some jsonResponse \<Rightarrow> Inr jsonResponse
                              | None \<Rightarrow>
                                  (case content of
                                     JStr s \<Rightarrow>
                                       Inl (Error (''Invalid JSON response from OpenAI: ''
                                                   @ take 200 s @ ''...''))
                                   | _ \<Rightarrow> Inl (TypeError ''content.substring is not a function'')))))))"

text \<open>What the loop does besides returning: the calls of the service, by attempt number, and
  the waits, in milliseconds, in the order they happen.\<close>

datatype event = Fetch nat | Sleep nat

text \<open>The \<^verbatim>\<open>for\<close> loop of \<^verbatim>\<open>callOpenAI\<close> from \<open>attempt\<close> on; \<open>net n\<close> is what the \<open>n\<close>-th call
  of the service does. A loop that ends without returning gives \<^verbatim>\<open>undefined\<close>.\<close>

function callOpenAI_from ::
  "runtime \<Rightarrow> (nat \<Rightarrow> fetch_result) \<Rightarrow> nat \<Rightarrow> nat \<Rightarrow> (js_error + jsval) \<times> event list" where
  "callOpenAI_from rt net retries attempt =
     (if attempt \<le> retries then
        (case callOpenAI_attempt rt (net attempt) of
           Inr jsonResponse \<Rightarrow> (Inr jsonResponse, [Fetch attempt])
         | Inl error \<Rightarrow>
             if attempt = retries then (Inl error, [Fetch attempt])
             else
               apsnd (\<lambda>evs. Fetch attempt # Sleep (2 ^ attempt * 1000) # evs)
                 (callOpenAI_from rt net retries (attempt + 1)))
      else (Inr JUndefined, []))"
  by pat_completeness auto
termination
  by (relation "measure (\<lambda>(rt, net, retries, attempt). retries + 1 - attempt)") auto

declare callOpenAI_from.simps [simp del]

definition callOpenAI :: "runtime \<Rightarrow> (nat \<Rightarrow> fetch_result) \<Rightarrow> (js_error + jsval) \<times> event list" where
  "callOpenAI rt net = callOpenAI_from rt net 3 1"

section \<open>The document store\<close>

text \<open>The collection \<^verbatim>\<open>itineraries\<close>: a map from document identifiers to documents, a
  document being the list of its fields (their order carries no meaning). The operations are
  those of the store's client as the source calls them: \<^verbatim>\<open>set\<close> replaces the document,
  \<^verbatim>\<open>update\<close> replaces or adds the fields given, \<^verbatim>\<open>get\<close> reads. An operation that rejects
  (\<open>fault = Some m\<close>) writes nothing. A write puts the server's time in place of the
  sentinel.\<close>

type_synonym doc = "(string \<times> jsval) list"
type_synonym store = "string \<Rightarrow> doc option"

definition resolve :: "nat \<Rightarrow> doc \<Rightarrow> doc" where
  "resolve now d = map (\<lambda>(k, v). (k, if v = ServerTimestamp then Timestamp now else v)) d"

definition merge_fields :: "doc \<Rightarrow> doc \<Rightarrow> doc" where
  "merge_fields old new = fold (\<lambda>(k, v). AList.update k v) new old"

text \<open>\<^verbatim>\<open>doc(id).set(d)\<close>\<close>

definition doc_set :: "string option \<Rightarrow> nat \<Rightarrow> store \<Rightarrow> string \<Rightarrow> doc \<Rightarrow> js_error + store" where
  "doc_set fault now st ident d =
     (case fault of
        Some m \<Rightarrow> Inl (Thrown m)
      | None \<Rightarrow> Inr (st(ident \<mapsto> resolve now d)))"

text \<open>\<^verbatim>\<open>doc(id).update(d)\<close>: the fields of \<open>d\<close> replace or extend those of the stored document;
  the store client rejects when there is no document.\<close>

definition doc_update :: "string option \<Rightarrow> nat \<Rightarrow> store \<Rightarrow> string \<Rightarrow> doc \<Rightarrow> js_error + store" where
  "doc_update fault now st ident d =
     (case fault of
        Some m \<Rightarrow> Inl (Thrown m)
      | None \<Rightarrow>
          (case st ident of
             None \<Rightarrow> Inl (Thrown (''5 NOT_FOUND: No document to update: '' @ ident))
           | Some old \<Rightarrow> Inr (st(ident \<mapsto> merge_fields old (resolve now d)))))"

text \<open>\<^verbatim>\<open>doc(id).get()\<close>: \<open>None\<close> is a snapshot with \<^verbatim>\<open>exists\<close> false.\<close>

definition doc_get :: "string option \<Rightarrow> store \<Rightarrow> string \<Rightarrow> js_error + doc option" where
  "doc_get fault st ident =
     (case fault of
        Some m \<Rightarrow> Inl (Thrown m)
      | None \<Rightarrow> Inr (st ident))"

section \<open>The schemas\<close>

text \<open>A zod schema is its \<^verbatim>\<open>parse\<close>: \<open>Some\<close> of the parsed value, or \<open>None\<close> when it throws
  a \<^verbatim>\<open>ZodError\<close>. An object schema keeps the keys of its shape and drops every other key.\<close>

type_synonym schema = "jsval \<Rightarrow> jsval option"

definition z_string :: schema where
  "z_string v = (case v of JStr s \<Rightarrow> Some v | _ \<Rightarrow> None)"

definition z_number :: schema where
  "z_number v = (case v of JNum n \<Rightarrow> Some v | _ \<Rightarrow> None)"

definition z_any :: schema where
  "z_any v = Some v"

definition z_enum :: "string list \<Rightarrow> schema" where
  "z_enum vals v = (case v of JStr s \<Rightarrow> if s \<in> set vals then Some v else None | _ \<Rightarrow> None)"

definition z_nullable :: "schema \<Rightarrow> schema" where
  "z_nullable S v = (if v = JNull then Some JNull else S v)"

definition z_array :: "schema \<Rightarrow> schema" where
  "z_array S v = (case v of JArr xs \<Rightarrow> map_option JArr (those (map S xs)) | _ \<Rightarrow> None)"

definition z_object :: "(string \<times> schema) list \<Rightarrow> schema" where
  "z_object shape v =
     (case v of
        JObj fs \<Rightarrow>
          map_option
            (\<lambda>ps. JObj (filter (\<lambda>(k, x). x \<noteq> JUndefined \<or> map_of fs k \<noteq> None) ps))
            (those (map (\<lambda>(k, S). map_option (Pair k) (S (field fs k))) shape))
      | _ \<Rightarrow> None)"

definition ActivitySchema :: schema where
  "ActivitySchema =
     z_object [(''time'', z_string), (''description'', z_string), (''location'', z_string)]"

definition DaySchema :: schema where
  "DaySchema =
     z_object [(''day'', z_number), (''theme'', z_string), (''activities'', z_array ActivitySchema)]"

definition ItinerarySchema :: schema where
  "ItinerarySchema =
     z_object
       [(''status'', z_enum [''completed'', ''processing'', ''failed'']),
        (''destination'', z_string),
        (''durationDays'', z_number),
        (''createdAt'', z_any),
        (''completedAt'', z_nullable z_any),
        (''itinerary'', z_array DaySchema),
        (''error'', z_nullable z_string)]"

section \<open>The generation pipeline\<close>

text \<open>What the world does during one run of \<^verbatim>\<open>processItinerary\<close>: whether getting the store
  client throws (parsing the service account key, initialising the app), what each of the
  three store writes does and the server's time at it, and what the calls of the generation
  service do. \<open>init_fault = None\<close> is \<^verbatim>\<open>processItinerary\<close> called on its own, in a module where
  no default app has been initialised. Called by \<^verbatim>\<open>fetch\<close> it never is: see \<open>serve\<close> below.\<close>

record pipeline_env =
  init_fault :: "string option"
  mark_fault :: "string option"
  mark_time :: nat
  service :: "nat \<Rightarrow> fetch_result"
  write_fault :: "string option"
  write_time :: nat
  fail_fault :: "string option"
  fail_time :: nat

definition fields_of :: "jsval \<Rightarrow> doc" where
  "fields_of v = (case v of JObj fs \<Rightarrow> fs | _ \<Rightarrow> [])"

text \<open>The first statement of the \<^verbatim>\<open>try\<close> block: the update to \<^verbatim>\<open>processing\<close>.\<close>

definition mark_processing :: "pipeline_env \<Rightarrow> string \<Rightarrow> store \<Rightarrow> js_error + store" where
  "mark_processing w jobId st =
     doc_update (mark_fault w) (mark_time w) st jobId
       [(''status'', JStr ''processing''), (''updatedAt'', ServerTimestamp)]"

text \<open>The rest of the \<^verbatim>\<open>try\<close> block: the model call, the record built from its answer, the
  validation and the write of the validated record. It gives the store it leaves, the calls
  and waits of the retry loop, and the exception that reaches the \<^verbatim>\<open>catch\<close>, if one does.
  The prompt of \<^verbatim>\<open>createPrompt\<close> is text sent to the service, and what the service answers is
  given by \<open>service w\<close>, so the prompt does not appear.\<close>

definition generate_and_store ::
  "runtime \<Rightarrow> pipeline_env \<Rightarrow> string \<Rightarrow> jsval \<Rightarrow> jsval \<Rightarrow> store \<Rightarrow> store \<times> event list \<times> js_error option" where
  "generate_and_store rt w jobId destination durationDays st =
     (case callOpenAI rt (service w) of
        (Inl e, evs) \<Rightarrow> (st, evs, Some e)
      | (Inr aiResponse, evs) \<Rightarrow>
          (case js_prop aiResponse ''itinerary'' of
             Inl e \<Rightarrow> (st, evs, Some e)
           | Inr itinerary \<Rightarrow>
               let itineraryData = JObj
                     [(''status'', JStr ''completed''),
                      (''destination'', destination),
                      (''durationDays'', durationDays),
                      (''createdAt'', ServerTimestamp),
                      (''completedAt'', ServerTimestamp),
                      (''itinerary'', itinerary),
                      (''error'', JNull)]
               in
               (case ItinerarySchema itineraryData of
                  None \<Rightarrow> (st, evs, Some (Thrown (zod_message rt itineraryData)))
                | Some validatedData \<Rightarrow>
                    (case doc_update (write_fault w) (write_time w) st jobId
                            (fields_of validatedData) of
                       Inl e \<Rightarrow> (st, evs, Some e)
                     | Inr st' \<Rightarrow> (st', evs, None)))))"

text \<open>The \<^verbatim>\<open>catch\<close> block: the update to \<^verbatim>\<open>failed\<close>.\<close>

definition record_failure :: "pipeline_env \<Rightarrow> string \<Rightarrow> js_error \<Rightarrow> store \<Rightarrow> js_error + store" where
  "record_failure w jobId error st =
     doc_update (fail_fault w) (fail_time w) st jobId
       [(''status'', JStr ''failed''),
        (''completedAt'', ServerTimestamp),
        (''error'', JStr (message error))]"

text \<open>\<^verbatim>\<open>processItinerary\<close>: the store it leaves, the calls and waits, and the exception its
  promise rejects with, if it does (one thrown before the \<^verbatim>\<open>try\<close>, or by the write in the
  \<^verbatim>\<open>catch\<close>).\<close>

definition processItinerary ::
  "runtime \<Rightarrow> pipeline_env \<Rightarrow> string \<Rightarrow> jsval \<Rightarrow> jsval \<Rightarrow> store \<Rightarrow> store \<times> event list \<times> js_error option" where
  "processItinerary rt w jobId destination durationDays st =
     (case init_fault w of
        Some m \<Rightarrow> (st, [], Some (Thrown m))
      | None \<Rightarrow>
          (case (case mark_processing w jobId st of
                   Inl e \<Rightarrow> (st, [], Some e)
                 | Inr st1 \<Rightarrow> generate_and_store rt w jobId destination durationDays st1) of
             (st', evs, None) \<Rightarrow> (st', evs, None)
           | (st', evs, Some error) \<Rightarrow>
               (case record_failure w jobId error st' of
                  Inl e \<Rightarrow> (st', evs, Some e)
                | Inr st'' \<Rightarrow> (st'', evs, None))))"

section \<open>The request router\<close>

text \<open>A request is its method, the path of its URL, and what \<^verbatim>\<open>request.json()\<close> does
  (\<open>Inl\<close> when it rejects). The body of a response is the value given to
  \<^verbatim>\<open>JSON.stringify\<close>, or \<open>None\<close> for \<^verbatim>\<open>null\<close>.\<close>

record request =
  req_method :: string
  req_pathname :: string
  req_json :: "string + jsval"

record response =
  resp_status :: nat
  resp_body :: "jsval option"
  resp_headers :: "(string \<times> string) list"

text \<open>What the world does during one request: \<^verbatim>\<open>Date.now()\<close>, the text of
  \<^verbatim>\<open>Math.random().toString(36)\<close>, whether getting the store client throws (as it does when
  the key does not parse, or when an earlier request served by the same module has
  initialised the default app already), what the store operation does and the server's time
  at it.\<close>

record request_env =
  date_now :: nat
  random36 :: string
  client_fault :: "string option"
  store_fault :: "string option"
  store_time :: nat

text \<open>The task handed to \<^verbatim>\<open>ctx.waitUntil\<close>: the arguments of \<^verbatim>\<open>processItinerary\<close>.\<close>

record task =
  task_job :: string
  task_destination :: jsval
  task_days :: jsval

definition digit :: "nat \<Rightarrow> char" where
  "digit n = ''0123456789'' ! n"

fun string_of_nat :: "nat \<Rightarrow> string" where
  "string_of_nat n =
     (if n < 10 then [digit n] else string_of_nat (n div 10) @ [digit (n mod 10)])"

declare string_of_nat.simps [simp del]

definition generateJobId :: "nat \<Rightarrow> string \<Rightarrow> string" where
  "generateJobId now rnd = ''job_'' @ string_of_nat now @ ''_'' @ take 9 (drop 2 rnd)"

definition corsHeaders :: "(string \<times> string) list" where
  "corsHeaders =
     [(''Access-Control-Allow-Origin'', ''*''),
      (''Access-Control-Allow-Methods'', ''GET, POST, OPTIONS''),
      (''Access-Control-Allow-Headers'', ''Content-Type'')]"

definition json_response :: "nat \<Rightarrow> jsval \<Rightarrow> response" where
  "json_response st v =
     \<lparr>resp_status = st, resp_body = Some v, resp_headers = (''Content-Type'', ''application/json'') # corsHeaders\<rparr>"

definition error_body :: "string \<Rightarrow> jsval" where
  "error_body m = JObj [(''error'', JStr m)]"

text \<open>\<^verbatim>\<open>s.split(c)\<close> and \<^verbatim>\<open>s.startsWith(p)\<close>\<close>

fun split :: "char \<Rightarrow> string \<Rightarrow> string list" where
  "split c [] = [[]]"
| "split c (x # xs) =
     (if x = c then [] # split c xs
      else (case split c xs of [] \<Rightarrow> [[x]] | w # ws \<Rightarrow> (x # w) # ws))"

definition startsWith :: "string \<Rightarrow> string \<Rightarrow> bool" where
  "startsWith s p = (take (length p) s = p)"

text \<open>The branch \<^verbatim>\<open>POST /generate\<close> of \<^verbatim>\<open>fetch\<close>: \<open>Inl\<close> is an exception that reaches the
  outer \<^verbatim>\<open>catch\<close>; \<open>Inr\<close> the response, the store, and the task scheduled.\<close>

definition generate_route ::
  "request \<Rightarrow> request_env \<Rightarrow> store \<Rightarrow> js_error + response \<times> store \<times> task option" where
  "generate_route req w st =
     (case req_json req of
        Inl m \<Rightarrow> Inl (Thrown m)
      | Inr body \<Rightarrow>
          (case js_prop body ''destination'' of
             Inl e \<Rightarrow> Inl e
           | Inr destination \<Rightarrow>
               (case js_prop body ''durationDays'' of
                  Inl e \<Rightarrow> Inl e
                | Inr durationDays \<Rightarrow>
                    if \<not> truthy destination \<or> \<not> truthy durationDays then
                      Inr (json_response 400
                             (error_body ''Missing required fields: destination and durationDays''),
                           st, None)
                    else if (case durationDays of JNum d \<Rightarrow> d < 1 \<or> d > 30 | _ \<Rightarrow> True) then
                      Inr (json_response 400
                             (error_body ''durationDays must be a number between 1 and 30''),
                           st, None)
                    else
                      let jobId = generateJobId (date_now w) (random36 w) in
                      (case client_fault w of
                         Some m \<Rightarrow> Inl (Thrown m)
                       | None \<Rightarrow>
                           (case doc_set (store_fault w) (store_time w) st jobId
                                   [(''status'', JStr ''processing''),
                                    (''destination'', destination),
                                    (''durationDays'', durationDays),
                                    (''createdAt'', ServerTimestamp),
                                    (''completedAt'', JNull),
                                    (''itinerary'', JArr []),
                                    (''error'', JNull)] of
                              Inl e \<Rightarrow> Inl e
                            | Inr st' \<Rightarrow>
                                Inr (json_response 202
                                       (JObj [(''jobId'', JStr jobId),
                                              (''message'', JStr ''Itinerary generation started'')]),
                                     st',
                                     Some \<lparr>task_job = jobId, task_destination = destination,
                                           task_days = durationDays\<rparr>))))))"

text \<open>The branch \<^verbatim>\<open>GET /status/...\<close> of \<^verbatim>\<open>fetch\<close>, with its own \<^verbatim>\<open>try\<close> and \<^verbatim>\<open>catch\<close>.
  The third element of the split path is a string or \<^verbatim>\<open>undefined\<close>; \<^verbatim>\<open>!jobId\<close> holds of
  \<^verbatim>\<open>undefined\<close> and of the empty string, which \<open>jobId\<close> below both stand for.\<close>

definition status_route :: "request \<Rightarrow> request_env \<Rightarrow> store \<Rightarrow> response" where
  "status_route req w st =
     (let segments = split CHR ''/'' (req_pathname req);
          jobId = (if 2 < length segments then segments ! 2 else []) in
      if jobId = [] then json_response 400 (error_body ''Job ID is required'')
      else
        (case (case client_fault w of
                 Some m \<Rightarrow> Inl (Thrown m)
               | None \<Rightarrow> doc_get (store_fault w) st jobId) of
           Inl e \<Rightarrow> json_response 500 (error_body ''Failed to fetch job status'')
         | Inr None \<Rightarrow> json_response 404 (error_body ''Job not found'')
         | Inr (Some data) \<Rightarrow> json_response 200 (JObj data)))"

text \<open>The \<^verbatim>\<open>try\<close> block of \<^verbatim>\<open>fetch\<close>.\<close>

definition route ::
  "request \<Rightarrow> request_env \<Rightarrow> store \<Rightarrow> js_error + response \<times> store \<times> task option" where
  "route req w st =
     (if req_method req = ''POST'' \<and> req_pathname req = ''/generate'' then generate_route req w st
      else if req_method req = ''GET'' \<and> startsWith (req_pathname req) ''/status/'' then
        Inr (status_route req w st, st, None)
      else if req_method req = ''GET'' \<and> req_pathname req = ''/'' then
        Inr (json_response 200
               (JObj [(''message'', JStr ''AI Itinerary Generator API''),
                      (''endpoints'',
                       JObj [(''POST /generate'', JStr ''Generate a new itinerary''),
                             (''GET /status/{jobId}'', JStr ''Check itinerary status'')])]),
             st, None)
      else Inr (json_response 404 (error_body ''Endpoint not found''), st, None))"

text \<open>\<^verbatim>\<open>fetch\<close>: the response, the store it leaves, and the task it scheduled.\<close>

definition fetch :: "request \<Rightarrow> request_env \<Rightarrow> store \<Rightarrow> response \<times> store \<times> task option" where
  "fetch req w st =
     (if req_method req = ''OPTIONS'' then (\<lparr>resp_status = 200, resp_body = None, resp_headers = corsHeaders\<rparr>, st, None)
      else
        (case route req w st of
           Inl error \<Rightarrow> (json_response 500 (error_body ''Internal server error''), st, None)
         | Inr r \<Rightarrow> r))"

section \<open>A request and the task it schedules\<close>




section \<open>The properties, in the words of the specification\<close>

definition status_of :: "doc \<Rightarrow> jsval" where
  "status_of d = field d ''status''"

definition terminal :: "doc \<Rightarrow> bool" where
  "terminal d = (status_of d = JStr ''completed'' \<or> status_of d = JStr ''failed'')"

definition is_str :: "jsval \<Rightarrow> bool" where
  "is_str v = (case v of JStr s \<Rightarrow> True | _ \<Rightarrow> False)"

definition is_num :: "jsval \<Rightarrow> bool" where
  "is_num v = (case v of JNum n \<Rightarrow> True | _ \<Rightarrow> False)"

text \<open>An activity record as it is stored: exactly the fields \<^verbatim>\<open>time\<close>, \<^verbatim>\<open>description\<close> and
  \<^verbatim>\<open>location\<close>, each a string. A day record as it is stored: exactly a number \<^verbatim>\<open>day\<close>, a
  string \<^verbatim>\<open>theme\<close> and an array \<^verbatim>\<open>activities\<close> of activity records.\<close>

definition activity_record :: "jsval \<Rightarrow> bool" where
  "activity_record v =
     (case v of
        JObj fs \<Rightarrow>
          map fst fs = [''time'', ''description'', ''location''] \<and> list_all is_str (map snd fs)
      | _ \<Rightarrow> False)"

definition day_record :: "jsval \<Rightarrow> bool" where
  "day_record v =
     (case v of
        JObj fs \<Rightarrow>
          map fst fs = [''day'', ''theme'', ''activities''] \<and>
          is_num (field fs ''day'') \<and> is_str (field fs ''theme'') \<and>
          (case field fs ''activities'' of
             JArr acts \<Rightarrow> list_all activity_record acts
           | _ \<Rightarrow> False)
      | _ \<Rightarrow> False)"

text \<open>The shape a model output must have to pass the validation: an array of objects with a
  number \<^verbatim>\<open>day\<close>, a string \<^verbatim>\<open>theme\<close> and an array \<^verbatim>\<open>activities\<close> of objects with strings
  \<^verbatim>\<open>time\<close>, \<^verbatim>\<open>description\<close> and \<^verbatim>\<open>location\<close>.\<close>

definition activity_shape :: "jsval \<Rightarrow> bool" where
  "activity_shape v =
     (case v of
        JObj fs \<Rightarrow>
          is_str (field fs ''time'') \<and> is_str (field fs ''description'') \<and>
          is_str (field fs ''location'')
      | _ \<Rightarrow> False)"

definition day_shape :: "jsval \<Rightarrow> bool" where
  "day_shape v =
     (case v of
        JObj fs \<Rightarrow>
          is_num (field fs ''day'') \<and> is_str (field fs ''theme'') \<and>
          (case field fs ''activities'' of
             JArr acts \<Rightarrow> list_all activity_shape acts
           | _ \<Rightarrow> False)
      | _ \<Rightarrow> False)"

definition itinerary_shape :: "jsval \<Rightarrow> bool" where
  "itinerary_shape v = (case v of JArr days \<Rightarrow> list_all day_shape days | _ \<Rightarrow> False)"

text \<open>The shape the specification asks of a completed job: as many days as \<^verbatim>\<open>durationDays\<close>,
  three activities a day, no empty string.\<close>

definition full_activity :: "jsval \<Rightarrow> bool" where
  "full_activity v =
     (case v of
        JObj fs \<Rightarrow>
          truthy (field fs ''time'') \<and> truthy (field fs ''description'') \<and>
          truthy (field fs ''location'') \<and> activity_shape v
      | _ \<Rightarrow> False)"

definition full_day :: "jsval \<Rightarrow> bool" where
  "full_day v =
     (case v of
        JObj fs \<Rightarrow>
          (case field fs ''activities'' of
             JArr acts \<Rightarrow> length acts = 3 \<and> list_all full_activity acts
           | _ \<Rightarrow> False)
      | _ \<Rightarrow> False)"

definition full_itinerary :: "doc \<Rightarrow> bool" where
  "full_itinerary d =
     (case field d ''itinerary'' of
        JArr days \<Rightarrow>
          field d ''durationDays'' = JNum (of_nat (length days)) \<and> list_all full_day days
      | _ \<Rightarrow> False)"

text \<open>A record that is as the router created it: \<^verbatim>\<open>processing\<close>, with no completion time, an
  empty itinerary and no error.\<close>

definition as_created :: "doc \<Rightarrow> bool" where
  "as_created d =
     (status_of d = JStr ''processing'' \<and> field d ''completedAt'' = JNull \<and>
      field d ''itinerary'' = JArr [] \<and> field d ''error'' = JNull)"

text \<open>The record \<^verbatim>\<open>processItinerary\<close> builds from the answer of the model and gives to
  \<^verbatim>\<open>ItinerarySchema.parse\<close>, and the names of its fields.\<close>

definition itineraryData :: "jsval \<Rightarrow> jsval \<Rightarrow> jsval \<Rightarrow> jsval" where
  "itineraryData destination durationDays itinerary =
     JObj [(''status'', JStr ''completed''),
           (''destination'', destination),
           (''durationDays'', durationDays),
           (''createdAt'', ServerTimestamp),
           (''completedAt'', ServerTimestamp),
           (''itinerary'', itinerary),
           (''error'', JNull)]"

definition schema_keys :: "string list" where
  "schema_keys =
     [''status'', ''destination'', ''durationDays'', ''createdAt'', ''completedAt'',
      ''itinerary'', ''error'']"

text \<open>The attempts made and the waits applied, read off the events of the retry loop.\<close>

fun attempts_of :: "event list \<Rightarrow> nat list" where
  "attempts_of [] = []"
| "attempts_of (Fetch n # evs) = n # attempts_of evs"
| "attempts_of (Sleep d # evs) = attempts_of evs"

fun delays_of :: "event list \<Rightarrow> nat list" where
  "delays_of [] = []"
| "delays_of (Fetch n # evs) = delays_of evs"
| "delays_of (Sleep d # evs) = d # delays_of evs"

text \<open>The messages of the exceptions the platform and the libraries raise are not empty.\<close>

definition fetch_message_ok :: "fetch_result \<Rightarrow> bool" where
  "fetch_message_ok r =
     (case r of
        FetchThrows m \<Rightarrow> m \<noteq> []
      | FetchResponse st (Inl m) \<Rightarrow> m \<noteq> []
      | FetchResponse st (Inr v) \<Rightarrow> True)"

definition fault_ok :: "string option \<Rightarrow> bool" where
  "fault_ok f = (f \<noteq> Some [])"

text \<open>The record \<^verbatim>\<open>fetch\<close> writes at creation, as stored at server time \<open>t\<close>.\<close>

definition created_record :: "jsval \<Rightarrow> jsval \<Rightarrow> nat \<Rightarrow> doc" where
  "created_record destination durationDays t =
     resolve t
       [(''status'', JStr ''processing''),
        (''destination'', destination),
        (''durationDays'', durationDays),
        (''createdAt'', ServerTimestamp),
        (''completedAt'', JNull),
        (''itinerary'', JArr []),
        (''error'', JNull)]"

section \<open>Sample inputs\<close>

text \<open>A runtime that parses the text the sample service answers with and the text of an empty
  object, writes natural numbers in decimal, and has a fixed text for the message of a
  \<^verbatim>\<open>ZodError\<close>. The sample answer is an itinerary of one day with one activity, whose location
  is the empty string.\<close>

definition sample_text :: string where
  \<open>sample_text =
     ''{"itinerary":[{"day":1,"theme":"Arrival","activities":[{"time":"Morning","description":"Walk","location":""}]}]}''\<close>

definition sample_day :: jsval where
  "sample_day =
     JObj [(''day'', JNum 1), (''theme'', JStr ''Arrival''),
           (''activities'',
            JArr [JObj [(''time'', JStr ''Morning''), (''description'', JStr ''Walk''),
                        (''location'', JStr [])]])]"

definition sample_reply :: jsval where
  "sample_reply = JObj [(''itinerary'', JArr [sample_day])]"

definition sample_runtime :: runtime where
  "sample_runtime =
     \<lparr>json_parse =
        (\<lambda>s. if s = sample_text then Some sample_reply
             else if s = ''{}'' then Some (JObj []) else None),
      number_text = (\<lambda>r. string_of_nat (nat \<lfloor>r\<rfloor>)),
      zod_message = (\<lambda>v. ''[]'')\<rparr>"

definition sample_answer :: fetch_result where
  "sample_answer =
     FetchResponse 200
       (Inr (JObj [(''choices'',
                    JArr [JObj [(''message'', JObj [(''content'', JStr sample_text)])]])]))"

text \<open>Worlds for \<^verbatim>\<open>processItinerary\<close> called on its own, where no default app exists and its
  store client initialises: the service answers with the sample itinerary, is down, or is
  down once.\<close>

definition alone_answered :: pipeline_env where
  "alone_answered =
     \<lparr>init_fault = None, mark_fault = None, mark_time = 2000, service = (\<lambda>n. sample_answer),
      write_fault = None, write_time = 5000, fail_fault = None, fail_time = 5000\<rparr>"

definition service_down :: pipeline_env where
  "service_down =
     \<lparr>init_fault = None, mark_fault = None, mark_time = 2000,
      service = (\<lambda>n. FetchThrows ''Network connection lost.''),
      write_fault = None, write_time = 5000, fail_fault = None, fail_time = 5000\<rparr>"

definition service_recovers :: pipeline_env where
  "service_recovers =
     \<lparr>init_fault = None, mark_fault = None, mark_time = 2000,
      service = (\<lambda>n. if n = 1 then FetchThrows ''Network connection lost.'' else sample_answer),
      write_fault = None, write_time = 5000, fail_fault = None, fail_time = 5000\<rparr>"

definition post_generate :: "jsval \<Rightarrow> request" where
  "post_generate b = \<lparr>req_method = ''POST'', req_pathname = ''/generate'', req_json = Inr b\<rparr>"

definition paris :: "rat \<Rightarrow> jsval" where
  "paris n = JObj [(''destination'', JStr ''Paris''), (''durationDays'', JNum n)]"

definition get_status :: "string \<Rightarrow> request" where
  "get_status ident =
     \<lparr>req_method = ''GET'', req_pathname = ''/status/'' @ ident, req_json = Inl ''Unexpected end of JSON input''\<rparr>"

definition world_ok :: request_env where
  "world_ok =
     \<lparr>date_now = 1700000000000, random36 = ''0.4fzyo82mvyr'',
      client_fault = None, store_fault = None, store_time = 1000\<rparr>"


definition store_unavailable :: request_env where
  "store_unavailable =
     \<lparr>date_now = 1700000000000, random36 = ''0.4fzyo82mvyr'',
      client_fault = None, store_fault = Some ''14 UNAVAILABLE'', store_time = 1000\<rparr>"

definition sample_job :: string where
  "sample_job = ''job_1700000000000_4fzyo82mv''"

text \<open>The record of the sample job after \<^verbatim>\<open>processItinerary\<close>, called on its own, has run on
  the record as created, with the service answering the sample itinerary.\<close>

definition sample_completed :: doc where
  "sample_completed =
     [(''status'', JStr ''completed''), (''destination'', JStr ''Paris''),
      (''durationDays'', JNum 3), (''createdAt'', Timestamp 5000),
      (''completedAt'', Timestamp 5000), (''itinerary'', JArr [sample_day]),
      (''error'', JNull), (''updatedAt'', Timestamp 2000)]"

section \<open>The retry loop\<close>

text \<open>The loop of \<^verbatim>\<open>callOpenAI\<close> with its three attempts, unrolled from the last attempt to the
  first.\<close>

lemma from3: "callOpenAI_from rt net 3 3 =
   (case callOpenAI_attempt rt (net 3) of Inr v \<Rightarrow> (Inr v, [Fetch 3]) | Inl e \<Rightarrow> (Inl e, [Fetch 3]))"
  by (subst callOpenAI_from.simps) (simp split: sum.splits)

lemma from2: "callOpenAI_from rt net 3 2 =
   (case callOpenAI_attempt rt (net 2) of Inr v \<Rightarrow> (Inr v, [Fetch 2])
    | Inl e \<Rightarrow> apsnd (\<lambda>evs. Fetch 2 # Sleep 4000 # evs) (callOpenAI_from rt net 3 3))"
  by (subst callOpenAI_from.simps) (simp split: sum.splits)

lemma from1: "callOpenAI_from rt net 3 1 =
   (case callOpenAI_attempt rt (net 1) of Inr v \<Rightarrow> (Inr v, [Fetch 1])
    | Inl e \<Rightarrow> apsnd (\<lambda>evs. Fetch 1 # Sleep 2000 # evs) (callOpenAI_from rt net 3 2))"
  by (subst callOpenAI_from.simps) (simp split: sum.splits del: One_nat_def)

lemma callOpenAI_unfold:
  "callOpenAI rt net =
     (case callOpenAI_attempt rt (net 1) of
        Inr v \<Rightarrow> (Inr v, [Fetch 1])
      | Inl e1 \<Rightarrow>
          (case callOpenAI_attempt rt (net 2) of
             Inr v \<Rightarrow> (Inr v, [Fetch 1, Sleep 2000, Fetch 2])
           | Inl e2 \<Rightarrow>
               (case callOpenAI_attempt rt (net 3) of
                  Inr v \<Rightarrow> (Inr v, [Fetch 1, Sleep 2000, Fetch 2, Sleep 4000, Fetch 3])
                | Inl e3 \<Rightarrow> (Inl e3, [Fetch 1, Sleep 2000, Fetch 2, Sleep 4000, Fetch 3]))))"
  unfolding callOpenAI_def from1 from2 from3 by (simp split: sum.splits del: One_nat_def)

text \<open>For any number of retries: when every attempt fails, the loop makes each attempt once,
  waits \<open>2^k\<close> seconds after the \<open>k\<close>-th attempt except after the last, and ends with the
  last attempt's exception.\<close>

lemma retry_loop_all_fail:
  assumes "attempt \<le> retries"
    and "\<forall>k. attempt \<le> k \<and> k \<le> retries \<longrightarrow> (\<exists>e. callOpenAI_attempt rt (net k) = Inl e)"
  shows "fst (callOpenAI_from rt net retries attempt) = callOpenAI_attempt rt (net retries) \<and>
         attempts_of (snd (callOpenAI_from rt net retries attempt)) = [attempt..<Suc retries] \<and>
         delays_of (snd (callOpenAI_from rt net retries attempt)) =
           map (\<lambda>k. 2 ^ k * 1000) [attempt..<retries]"
  using assms
proof (induction rt net retries attempt rule: callOpenAI_from.induct)
  case (1 rt net retries attempt)
  from "1.prems" obtain e where e: "callOpenAI_attempt rt (net attempt) = Inl e"
    by blast
  show ?case
  proof (cases "attempt = retries")
    case True
    with e show ?thesis
      by (subst (1 2 3) callOpenAI_from.simps) simp
  next
    case False
    with "1.prems" have lt: "attempt + 1 \<le> retries"
      by simp
    have ih: "fst (callOpenAI_from rt net retries (attempt + 1)) = callOpenAI_attempt rt (net retries) \<and>
         attempts_of (snd (callOpenAI_from rt net retries (attempt + 1))) = [attempt + 1..<Suc retries] \<and>
         delays_of (snd (callOpenAI_from rt net retries (attempt + 1))) =
           map (\<lambda>k. 2 ^ k * 1000) [attempt + 1..<retries]"
      using "1.IH"[OF _ e False lt] "1.prems" by simp
    have u: "[attempt..<Suc retries] = attempt # [attempt + 1..<Suc retries]"
      "[attempt..<retries] = attempt # [attempt + 1..<retries]"
      using lt by (simp_all add: upt_conv_Cons)
    show ?thesis
      using e False "1.prems"(1) ih
      by (subst (1 2 3) callOpenAI_from.simps) (auto simp: u apsnd_def map_prod_def split: prod.splits)
  qed
qed

lemma field_update_same [simp]: "field (AList.update k v d) k = v"
  by (simp add: field_def update_conv')

lemma field_update_other [simp]: "k' \<noteq> k \<Longrightarrow> field (AList.update k v d) k' = field d k'"
  by (simp add: field_def update_conv')

lemma doc_update_present:
  "st i = Some old \<Longrightarrow> doc_update None t st i d = Inr (st(i \<mapsto> merge_fields old (resolve t d)))"
  by (simp add: doc_update_def)

lemma all_fail_job:
  assumes "st jobId = Some d" "init_fault w = None" "mark_fault w = None" "fail_fault w = None"
    and "callOpenAI_attempt rt (service w 1) = Inl e1"
    and "callOpenAI_attempt rt (service w 2) = Inl e2"
    and "callOpenAI_attempt rt (service w 3) = Inl e3"
  shows "\<exists>st' d'. processItinerary rt w jobId destination durationDays st =
            (st', [Fetch 1, Sleep 2000, Fetch 2, Sleep 4000, Fetch 3], None) \<and>
          st' jobId = Some d' \<and> status_of d' = JStr ''failed'' \<and>
          field d' ''error'' = JStr (message e3)"
  using assms
  by (simp add: processItinerary_def mark_processing_def generate_and_store_def record_failure_def
      doc_update_present callOpenAI_unfold merge_fields_def resolve_def status_of_def del: One_nat_def)

text \<open>
  C1, as the code has it. The retry loop makes at most three attempts; it returns the parsed
  JSON of the first attempt that succeeds and calls the service no more; after a failing
  first attempt it waits \<open>2^1\<close> seconds and after a failing second attempt \<open>2^2\<close> seconds
  before the next one; after a failing third attempt it does not wait, and the third
  attempt's exception propagates. When the record exists and the writes of the pipeline
  work, three failing attempts leave the job \<^verbatim>\<open>failed\<close> with the third exception's message
  as \<^verbatim>\<open>error\<close>, the waits applied being those of 2 and 4 seconds.
\<close>

theorem retry_policy:
  "(callOpenAI_attempt rt (net 1) = Inr v \<longrightarrow> callOpenAI rt net = (Inr v, [Fetch 1])) \<and>
   (callOpenAI_attempt rt (net 1) = Inl e1 \<and> callOpenAI_attempt rt (net 2) = Inr v \<longrightarrow>
      callOpenAI rt net = (Inr v, [Fetch 1, Sleep 2000, Fetch 2])) \<and>
   (callOpenAI_attempt rt (net 1) = Inl e1 \<and> callOpenAI_attempt rt (net 2) = Inl e2 \<and>
    callOpenAI_attempt rt (net 3) = Inr v \<longrightarrow>
      callOpenAI rt net = (Inr v, [Fetch 1, Sleep 2000, Fetch 2, Sleep 4000, Fetch 3])) \<and>
   (callOpenAI_attempt rt (net 1) = Inl e1 \<and> callOpenAI_attempt rt (net 2) = Inl e2 \<and>
    callOpenAI_attempt rt (net 3) = Inl e3 \<longrightarrow>
      callOpenAI rt net = (Inl e3, [Fetch 1, Sleep 2000, Fetch 2, Sleep 4000, Fetch 3])) \<and>
   attempts_of (snd (callOpenAI rt net)) \<in> {[1], [1, 2], [1, 2, 3]} \<and>
   (st jobId = Some d \<and> init_fault w = None \<and> mark_fault w = None \<and> fail_fault w = None \<and>
    callOpenAI_attempt rt (service w 1) = Inl e1 \<and> callOpenAI_attempt rt (service w 2) = Inl e2 \<and>
    callOpenAI_attempt rt (service w 3) = Inl e3 \<longrightarrow>
      (\<exists>st' d'. processItinerary rt w jobId destination durationDays st =
            (st', [Fetch 1, Sleep 2000, Fetch 2, Sleep 4000, Fetch 3], None) \<and>
          st' jobId = Some d' \<and> status_of d' = JStr ''failed'' \<and>
          field d' ''error'' = JStr (message e3)))"
proof -
  have a: "attempts_of (snd (callOpenAI rt net)) \<in> {[1], [1, 2], [1, 2, 3]}"
    by (simp add: callOpenAI_unfold split: sum.splits del: One_nat_def)
  show ?thesis
    using a all_fail_job[of st jobId d w rt e1 e2 e3 destination durationDays]
    by (simp add: callOpenAI_unfold del: One_nat_def)
qed


lemma sample_attempt_ok:
  "callOpenAI_attempt sample_runtime sample_answer = Inr sample_reply"
  by (simp add: callOpenAI_attempt_def sample_answer_def response_ok_def field_def sample_runtime_def
      sample_text_def Let_def)

lemma attempt_throws: "callOpenAI_attempt rt (FetchThrows m) = Inl (Thrown m)"
  by (simp add: callOpenAI_attempt_def)

text \<open>The theorem at a service that fails once and then answers, and at a service that is
  down.\<close>

theorem retry_policy_witness:
  "callOpenAI_attempt sample_runtime (service service_recovers 1) = Inl (Thrown ''Network connection lost.'') \<and>
   callOpenAI_attempt sample_runtime (service service_recovers 2) = Inr sample_reply \<and>
   callOpenAI sample_runtime (service service_recovers) =
     (Inr sample_reply, [Fetch 1, Sleep 2000, Fetch 2]) \<and>
   callOpenAI_attempt sample_runtime (service service_down 3) = Inl (Thrown ''Network connection lost.'') \<and>
   (\<exists>st' d'. processItinerary sample_runtime service_down sample_job (JStr ''Paris'') (JNum 3)
               [sample_job \<mapsto> created_record (JStr ''Paris'') (JNum 3) 1000] =
            (st', [Fetch 1, Sleep 2000, Fetch 2, Sleep 4000, Fetch 3], None) \<and>
          st' sample_job = Some d' \<and> status_of d' = JStr ''failed'' \<and>
          field d' ''error'' = JStr ''Network connection lost.'')"
proof -
  have r1: "callOpenAI_attempt sample_runtime (service service_recovers 1) = Inl (Thrown ''Network connection lost.'')"
    by (simp add: service_recovers_def attempt_throws)
  have r2: "callOpenAI_attempt sample_runtime (service service_recovers 2) = Inr sample_reply"
    by (simp add: service_recovers_def sample_attempt_ok)
  have d: "\<And>n. callOpenAI_attempt sample_runtime (service service_down n) = Inl (Thrown ''Network connection lost.'')"
    by (simp add: service_down_def attempt_throws)
  have f: "init_fault service_down = None \<and> mark_fault service_down = None \<and> fail_fault service_down = None"
    by (simp add: service_down_def)
  note a = retry_policy[where rt = sample_runtime and net = "service service_recovers"
      and v = sample_reply and ?e1.0 = "Thrown ''Network connection lost.''"]
  note b = retry_policy[where rt = sample_runtime and ?e1.0 = "Thrown ''Network connection lost.''"
      and ?e2.0 = "Thrown ''Network connection lost.''" and ?e3.0 = "Thrown ''Network connection lost.''"
      and st = "[sample_job \<mapsto> created_record (JStr ''Paris'') (JNum 3) 1000]" and jobId = sample_job
      and d = "created_record (JStr ''Paris'') (JNum 3) 1000" and w = service_down
      and destination = "JStr ''Paris''" and durationDays = "JNum 3"]
  show ?thesis using a b r1 r2 d f by simp
qed

text \<open>C1 as stated fails: with the service down for all three attempts the waits applied are
  those of 2 and 4 seconds, and no wait of 8 seconds follows the third attempt.\<close>

theorem retry_policy_counterexample:
  "callOpenAI sample_runtime (service service_down) =
     (Inl (Thrown ''Network connection lost.''), [Fetch 1, Sleep 2000, Fetch 2, Sleep 4000, Fetch 3]) \<and>
   delays_of (snd (callOpenAI sample_runtime (service service_down))) = [2000, 4000] \<and>
   delays_of (snd (callOpenAI sample_runtime (service service_down))) \<noteq> [2000, 4000, 8000]"
  by (simp add: callOpenAI_unfold service_down_def attempt_throws del: One_nat_def)


section \<open>The request router\<close>

lemma generateJobId_nonempty: "generateJobId now rnd \<noteq> []"
  by (simp add: generateJobId_def)

lemma split_no_sep: "c \<notin> set s \<Longrightarrow> split c s = [s]"
  by (induction s) auto

lemma split_at_sep: "c \<notin> set s \<Longrightarrow> split c (s @ c # r) = s # split c r"
  by (induction s) auto

lemma status_segments:
  assumes "CHR ''/'' \<notin> set ident" "rest = [] \<or> (\<exists>r. rest = CHR ''/'' # r)"
  shows "\<exists>more. split CHR ''/'' (''/status/'' @ ident @ rest) = [] # ''status'' # ident # more"
proof -
  have "\<exists>more. split CHR ''/'' (ident @ rest) = ident # more"
    using assms by (auto simp: split_no_sep split_at_sep)
  then show ?thesis by auto
qed

lemma status_path_routes:
  "startsWith (''/status/'' @ p) ''/status/'' \<and> ''/status/'' @ p \<noteq> ''/generate''"
  by (simp add: startsWith_def)

text \<open>
  C5. \<^verbatim>\<open>POST /generate\<close> with an object as body answers 400 when \<^verbatim>\<open>durationDays\<close> is 0, is 31,
  or is the string \<^verbatim>\<open>"three"\<close>, and when \<^verbatim>\<open>destination\<close> is missing; a request answered 400
  writes nothing and schedules nothing. With a non-empty string \<^verbatim>\<open>destination\<close> and a number
  \<^verbatim>\<open>durationDays\<close> from 1 to 30 (the store client and its write working) it answers 202 with
  a non-empty \<^verbatim>\<open>jobId\<close>.
\<close>

theorem generate_validation:
  assumes "req_method req = ''POST''" and "req_pathname req = ''/generate''"
    and "req_json req = Inr (JObj fs)"
  shows
   "(map_of fs ''durationDays'' = Some (JNum 0) \<longrightarrow> resp_status (fst (fetch req w st)) = 400) \<and>
    (map_of fs ''durationDays'' = Some (JNum 31) \<longrightarrow> resp_status (fst (fetch req w st)) = 400) \<and>
    (map_of fs ''durationDays'' = Some (JStr ''three'') \<longrightarrow> resp_status (fst (fetch req w st)) = 400) \<and>
    (map_of fs ''destination'' = None \<longrightarrow> resp_status (fst (fetch req w st)) = 400) \<and>
    (resp_status (fst (fetch req w st)) = 400 \<longrightarrow> snd (fetch req w st) = (st, None)) \<and>
    (map_of fs ''destination'' = Some (JStr s) \<and> s \<noteq> [] \<and>
     map_of fs ''durationDays'' = Some (JNum n) \<and> 1 \<le> n \<and> n \<le> 30 \<and>
     client_fault w = None \<and> store_fault w = None \<longrightarrow>
       (\<exists>jobId. jobId \<noteq> [] \<and>
          fst (fetch req w st) =
            json_response 202
              (JObj [(''jobId'', JStr jobId), (''message'', JStr ''Itinerary generation started'')]) \<and>
          resp_status (fst (fetch req w st)) = 202))"
  using assms
  by (auto simp: fetch_def route_def generate_route_def field_def json_response_def doc_set_def
      generateJobId_nonempty Let_def split: option.splits jsval.splits)


lemma sample_job_id: "generateJobId 1700000000000 ''0.4fzyo82mvyr'' = sample_job"
  by (simp add: generateJobId_def sample_job_def string_of_nat.simps digit_def)

lemma post_paris:
  "1 \<le> n \<Longrightarrow> n \<le> 30 \<Longrightarrow>
   fetch (post_generate (paris n)) world_ok st =
     (json_response 202
        (JObj [(''jobId'', JStr sample_job), (''message'', JStr ''Itinerary generation started'')]),
      st(sample_job \<mapsto> created_record (JStr ''Paris'') (JNum n) 1000),
      Some \<lparr>task_job = sample_job, task_destination = JStr ''Paris'', task_days = JNum n\<rparr>)"
  by (auto simp: fetch_def route_def generate_route_def post_generate_def paris_def world_ok_def
      field_def doc_set_def resolve_def created_record_def sample_job_id Let_def)

text \<open>The theorem at the four invalid bodies and at a valid one.\<close>

theorem generate_validation_witness:
  "resp_status (fst (fetch (post_generate (paris 0)) world_ok Map.empty)) = 400 \<and>
   resp_status (fst (fetch (post_generate (paris 31)) world_ok Map.empty)) = 400 \<and>
   resp_status (fst (fetch (post_generate
       (JObj [(''destination'', JStr ''Paris''), (''durationDays'', JStr ''three'')])) world_ok Map.empty)) = 400 \<and>
   resp_status (fst (fetch (post_generate (JObj [(''durationDays'', JNum 3)])) world_ok Map.empty)) = 400 \<and>
   snd (fetch (post_generate (paris 0)) world_ok Map.empty) = (Map.empty, None) \<and>
   (\<exists>jobId. jobId \<noteq> [] \<and>
      fst (fetch (post_generate (paris 3)) world_ok Map.empty) =
        json_response 202
          (JObj [(''jobId'', JStr jobId), (''message'', JStr ''Itinerary generation started'')]) \<and>
      resp_status (fst (fetch (post_generate (paris 3)) world_ok Map.empty)) = 202)"
proof -
  have p: "\<And>b. req_method (post_generate b) = ''POST'' \<and> req_pathname (post_generate b) = ''/generate''
      \<and> req_json (post_generate b) = Inr b"
    by (simp add: post_generate_def)
  note a = generate_validation[where req = "post_generate (paris 0)" and w = world_ok and st = Map.empty
      and fs = "[(''destination'', JStr ''Paris''), (''durationDays'', JNum 0)]"]
  note b = generate_validation[where req = "post_generate (paris 31)" and w = world_ok and st = Map.empty
      and fs = "[(''destination'', JStr ''Paris''), (''durationDays'', JNum 31)]"]
  note c = generate_validation[where req = "post_generate
       (JObj [(''destination'', JStr ''Paris''), (''durationDays'', JStr ''three'')])" and w = world_ok
      and st = Map.empty
      and fs = "[(''destination'', JStr ''Paris''), (''durationDays'', JStr ''three'')]"]
  note d = generate_validation[where req = "post_generate (JObj [(''durationDays'', JNum 3)])"
      and w = world_ok and st = Map.empty and fs = "[(''durationDays'', JNum 3)]"]
  note e = generate_validation[where req = "post_generate (paris 3)" and w = world_ok and st = Map.empty
      and fs = "[(''destination'', JStr ''Paris''), (''durationDays'', JNum 3)]" and s = "''Paris''"
      and n = 3]
  show ?thesis
    using a b c d e by (simp add: p paris_def world_ok_def)
qed

text \<open>
  C6. \<^verbatim>\<open>GET /status/{jobId}\<close>: an empty identifier segment is answered 400; with the store
  read working, an identifier with no record is answered 404 with \<^verbatim>\<open>{"error": "Job not found"}\<close>,
  and an identifier with a record is answered 200 with the stored record as it is. The store
  is left as it was.
\<close>

theorem status_handler:
  assumes "req_method req = ''GET''" and "req_pathname req = ''/status/'' @ ident @ rest"
    and "CHR ''/'' \<notin> set ident" and "rest = [] \<or> (\<exists>r. rest = CHR ''/'' # r)"
  shows
   "(ident = [] \<longrightarrow>
       fetch req w st = (json_response 400 (error_body ''Job ID is required''), st, None)) \<and>
    (ident \<noteq> [] \<and> client_fault w = None \<and> store_fault w = None \<and> st ident = None \<longrightarrow>
       fetch req w st = (json_response 404 (error_body ''Job not found''), st, None)) \<and>
    (ident \<noteq> [] \<and> client_fault w = None \<and> store_fault w = None \<and> st ident = Some d \<longrightarrow>
       fetch req w st = (json_response 200 (JObj d), st, None))"
proof -
  obtain more where m: "split CHR ''/'' (req_pathname req) = [] # ''status'' # ident # more"
    using status_segments[OF assms(3,4)] assms(2) by auto
  have r: "route req w st = Inr (status_route req w st, st, None)"
    using assms(1,2) status_path_routes[of "ident @ rest"] by (simp add: route_def)
  show ?thesis
    using assms(1) by (simp add: fetch_def r status_route_def m doc_get_def)
qed

text \<open>The theorem at a store with one record still \<^verbatim>\<open>processing\<close>, its itinerary empty.\<close>

theorem status_handler_witness:
  "fetch (get_status []) world_ok [sample_job \<mapsto> created_record (JStr ''Paris'') (JNum 3) 1000] =
     (json_response 400 (error_body ''Job ID is required''),
      [sample_job \<mapsto> created_record (JStr ''Paris'') (JNum 3) 1000], None) \<and>
   fetch (get_status ''job_0_x'') world_ok [sample_job \<mapsto> created_record (JStr ''Paris'') (JNum 3) 1000] =
     (json_response 404 (error_body ''Job not found''),
      [sample_job \<mapsto> created_record (JStr ''Paris'') (JNum 3) 1000], None) \<and>
   fetch (get_status sample_job) world_ok [sample_job \<mapsto> created_record (JStr ''Paris'') (JNum 3) 1000] =
     (json_response 200 (JObj (created_record (JStr ''Paris'') (JNum 3) 1000)),
      [sample_job \<mapsto> created_record (JStr ''Paris'') (JNum 3) 1000], None) \<and>
   status_of (created_record (JStr ''Paris'') (JNum 3) 1000) = JStr ''processing'' \<and>
   field (created_record (JStr ''Paris'') (JNum 3) 1000) ''itinerary'' = JArr []"
proof -
  have g: "\<And>i. req_method (get_status i) = ''GET'' \<and> req_pathname (get_status i) = ''/status/'' @ i @ []"
    by (simp add: get_status_def)
  note a = status_handler[where req = "get_status []" and ident = "[]" and rest = "[]" and w = world_ok
      and st = "[sample_job \<mapsto> created_record (JStr ''Paris'') (JNum 3) 1000]"]
  note b = status_handler[where req = "get_status ''job_0_x''" and ident = "''job_0_x''" and rest = "[]"
      and w = world_ok and st = "[sample_job \<mapsto> created_record (JStr ''Paris'') (JNum 3) 1000]"]
  note c = status_handler[where req = "get_status sample_job" and ident = sample_job and rest = "[]"
      and w = world_ok and st = "[sample_job \<mapsto> created_record (JStr ''Paris'') (JNum 3) 1000]"
      and d = "created_record (JStr ''Paris'') (JNum 3) 1000"]
  have s: "CHR ''/'' \<notin> set sample_job \<and> sample_job \<noteq> [] \<and> ''job_0_x'' \<noteq> sample_job"
    by (simp add: sample_job_def)
  have f: "status_of (created_record (JStr ''Paris'') (JNum 3) 1000) = JStr ''processing'' \<and>
   field (created_record (JStr ''Paris'') (JNum 3) 1000) ''itinerary'' = JArr []"
    by (simp add: status_of_def field_def created_record_def resolve_def)
  show ?thesis
    using a b c s f by (simp add: g world_ok_def)
qed


lemma three_halves_not_integer: "(3 / 2 :: rat) \<notin> \<int>"
proof
  assume "(3 / 2 :: rat) \<in> \<int>"
  then obtain k :: int where "(3 / 2 :: rat) = of_int k"
    by (auto elim: Ints_cases)
  then have "(of_int 3 :: rat) = of_int (2 * k)"
    by simp
  then have "3 = 2 * k"
    by (simp only: of_int_eq_iff)
  then show False
    by presburger
qed

lemma fetch_accepts:
  assumes "fetch req w st = (resp, st', Some t)"
  shows "\<exists>n. task_days t = JNum n \<and> 1 \<le> n \<and> n \<le> 30 \<and> truthy (task_destination t) \<and>
           task_job t = generateJobId (date_now w) (random36 w) \<and>
           st' = st(task_job t \<mapsto> created_record (task_destination t) (JNum n) (store_time w)) \<and>
           resp_status resp = 202"
  using assms
  by (auto simp: fetch_def route_def generate_route_def doc_set_def created_record_def
      json_response_def Let_def
      split: if_splits sum.splits option.splits jsval.splits)

text \<open>
  C7, as the code has it. The record \<^verbatim>\<open>POST /generate\<close> persists has as \<^verbatim>\<open>durationDays\<close> a
  number from 1 to 30, which need not be an integer; a request whose \<^verbatim>\<open>durationDays\<close> is not a
  number is answered 400 and nothing is persisted.
\<close>

theorem accepted_duration:
  "(fetch req w st = (resp, st', Some t) \<longrightarrow>
      (\<exists>d n. st' (task_job t) = Some d \<and> field d ''durationDays'' = JNum n \<and> 1 \<le> n \<and> n \<le> 30)) \<and>
   (req_method req = ''POST'' \<and> req_pathname req = ''/generate'' \<and> req_json req = Inr (JObj fs) \<and>
    \<not> is_num (field fs ''durationDays'') \<longrightarrow>
      resp_status (fst (fetch req w st)) = 400 \<and> snd (fetch req w st) = (st, None))"
proof -
  have a: "fetch req w st = (resp, st', Some t) \<longrightarrow>
      (\<exists>d n. st' (task_job t) = Some d \<and> field d ''durationDays'' = JNum n \<and> 1 \<le> n \<and> n \<le> 30)"
  proof
    assume "fetch req w st = (resp, st', Some t)"
    then obtain n where n: "1 \<le> n" "n \<le> 30"
        "st' = st(task_job t \<mapsto> created_record (task_destination t) (JNum n) (store_time w))"
      using fetch_accepts by blast
    have "field (created_record (task_destination t) (JNum n) (store_time w)) ''durationDays'' = JNum n"
      by (simp add: field_def created_record_def resolve_def)
    with n show "\<exists>d n. st' (task_job t) = Some d \<and> field d ''durationDays'' = JNum n \<and> 1 \<le> n \<and> n \<le> 30"
      by auto
  qed
  have b: "req_method req = ''POST'' \<and> req_pathname req = ''/generate'' \<and> req_json req = Inr (JObj fs) \<and>
    \<not> is_num (field fs ''durationDays'') \<longrightarrow>
      resp_status (fst (fetch req w st)) = 400 \<and> snd (fetch req w st) = (st, None)"
    by (auto simp: fetch_def route_def generate_route_def is_num_def json_response_def
        split: jsval.splits)
  from a b show ?thesis ..
qed

text \<open>The theorem at an accepted request and at one with a string for \<^verbatim>\<open>durationDays\<close>.\<close>

theorem accepted_duration_witness:
  "(\<exists>d n. (Map.empty(sample_job \<mapsto> created_record (JStr ''Paris'') (JNum 3) 1000)) sample_job = Some d \<and>
       field d ''durationDays'' = JNum n \<and> 1 \<le> n \<and> n \<le> 30) \<and>
   resp_status (fst (fetch (post_generate
       (JObj [(''destination'', JStr ''Paris''), (''durationDays'', JStr ''three'')])) world_ok Map.empty)) = 400 \<and>
   snd (fetch (post_generate
       (JObj [(''destination'', JStr ''Paris''), (''durationDays'', JStr ''three'')])) world_ok Map.empty) =
     (Map.empty, None)"
proof -
  note a = accepted_duration[where req = "post_generate (paris 3)" and w = world_ok and st = Map.empty
      and st' = "Map.empty(sample_job \<mapsto> created_record (JStr ''Paris'') (JNum 3) 1000)"
      and t = "\<lparr>task_job = sample_job, task_destination = JStr ''Paris'', task_days = JNum 3\<rparr>"
      and resp = "json_response 202
        (JObj [(''jobId'', JStr sample_job), (''message'', JStr ''Itinerary generation started'')])"]
  note b = accepted_duration[where req = "post_generate
       (JObj [(''destination'', JStr ''Paris''), (''durationDays'', JStr ''three'')])" and w = world_ok
      and st = Map.empty and fs = "[(''destination'', JStr ''Paris''), (''durationDays'', JStr ''three'')]"]
  have p: "\<not> is_num (field [(''destination'', JStr ''Paris''), (''durationDays'', JStr ''three'')] ''durationDays'')"
    by (simp add: is_num_def field_def)
  show ?thesis
    using a b p post_paris[of 3 Map.empty] by (simp add: post_generate_def)
qed

text \<open>C7 as stated fails: \<^verbatim>\<open>durationDays = 1.5\<close> is accepted and persisted.\<close>

theorem accepted_duration_counterexample:
  "fetch (post_generate (paris (3 / 2))) world_ok Map.empty =
     (json_response 202
        (JObj [(''jobId'', JStr sample_job), (''message'', JStr ''Itinerary generation started'')]),
      [sample_job \<mapsto> created_record (JStr ''Paris'') (JNum (3 / 2)) 1000],
      Some \<lparr>task_job = sample_job, task_destination = JStr ''Paris'', task_days = JNum (3 / 2)\<rparr>) \<and>
   field (created_record (JStr ''Paris'') (JNum (3 / 2)) 1000) ''durationDays'' = JNum (3 / 2) \<and>
   (3 / 2 :: rat) \<notin> \<int>"
  using post_paris[of "3 / 2" Map.empty] three_halves_not_integer
  by (simp add: field_def created_record_def resolve_def)

text \<open>
  C10. A \<^verbatim>\<open>POST /generate\<close> whose body does not parse as JSON is answered 500 with
  \<^verbatim>\<open>{"error": "Internal server error"}\<close>; the store is left as it was and no task is
  scheduled.
\<close>

theorem unparsable_body:
  assumes "req_method req = ''POST''" and "req_pathname req = ''/generate''"
    and "req_json req = Inl m"
  shows "fetch req w st = (json_response 500 (error_body ''Internal server error''), st, None)"
  using assms by (simp add: fetch_def route_def generate_route_def)

text \<open>The theorem at a request whose \<^verbatim>\<open>json()\<close> rejects.\<close>

theorem unparsable_body_witness:
  "fetch \<lparr>req_method = ''POST'', req_pathname = ''/generate'', req_json = Inl ''Unexpected token''\<rparr>
     world_ok Map.empty =
   (json_response 500 (error_body ''Internal server error''), Map.empty, None)"
  using unparsable_body[where req = "\<lparr>req_method = ''POST'', req_pathname = ''/generate'',
      req_json = Inl ''Unexpected token''\<rparr>" and m = "''Unexpected token''" and w = world_ok
      and st = Map.empty]
  by simp

text \<open>
  C9, as the code has it. Every exception that reaches the outer \<^verbatim>\<open>catch\<close> of \<^verbatim>\<open>fetch\<close> is
  answered 500 with \<^verbatim>\<open>{"error": "Internal server error"}\<close>: in \<^verbatim>\<open>POST /generate\<close>, a body that
  is \<^verbatim>\<open>null\<close>, and a failure of the store client or of the write of the record. A failure
  of the store client or of the read in the status handler is caught by the handler's own
  \<^verbatim>\<open>catch\<close> and answered 500 with \<^verbatim>\<open>{"error": "Failed to fetch job status"}\<close>. A 500 has one
  of these two bodies.
\<close>

theorem internal_failures:
  "(route req w st = Inl e \<longrightarrow>
      fetch req w st = (json_response 500 (error_body ''Internal server error''), st, None)) \<and>
   (req_method req = ''POST'' \<and> req_pathname req = ''/generate'' \<and>
    (req_json req = Inr JNull \<or>
     req_json req = Inr (JObj fs) \<and> truthy (field fs ''destination'') \<and>
     field fs ''durationDays'' = JNum n \<and> 1 \<le> n \<and> n \<le> 30 \<and>
     (client_fault w = Some m \<or> store_fault w = Some m)) \<longrightarrow>
      fetch req w st = (json_response 500 (error_body ''Internal server error''), st, None)) \<and>
   (req_method req = ''GET'' \<and> req_pathname req = ''/status/'' @ ident \<and> ident \<noteq> [] \<and>
    CHR ''/'' \<notin> set ident \<and> (client_fault w = Some m \<or> store_fault w = Some m) \<longrightarrow>
      fetch req w st = (json_response 500 (error_body ''Failed to fetch job status''), st, None)) \<and>
   (resp_status (fst (fetch req w st)) = 500 \<longrightarrow>
      resp_body (fst (fetch req w st)) = Some (error_body ''Internal server error'') \<or>
      resp_body (fst (fetch req w st)) = Some (error_body ''Failed to fetch job status''))"
proof -
  have a: "route req w st = Inl e \<longrightarrow>
      fetch req w st = (json_response 500 (error_body ''Internal server error''), st, None)"
    by (auto simp: fetch_def route_def split: if_splits)
  have b: "req_method req = ''POST'' \<and> req_pathname req = ''/generate'' \<and>
    (req_json req = Inr JNull \<or>
     req_json req = Inr (JObj fs) \<and> truthy (field fs ''destination'') \<and>
     field fs ''durationDays'' = JNum n \<and> 1 \<le> n \<and> n \<le> 30 \<and>
     (client_fault w = Some m \<or> store_fault w = Some m)) \<longrightarrow>
      fetch req w st = (json_response 500 (error_body ''Internal server error''), st, None)"
    by (auto simp: fetch_def route_def generate_route_def doc_set_def Let_def split: option.splits)
  have c: "req_method req = ''GET'' \<and> req_pathname req = ''/status/'' @ ident \<and> ident \<noteq> [] \<and>
    CHR ''/'' \<notin> set ident \<and> (client_fault w = Some m \<or> store_fault w = Some m) \<longrightarrow>
      fetch req w st = (json_response 500 (error_body ''Failed to fetch job status''), st, None)"
  proof (intro impI, elim conjE)
    assume h: "req_method req = ''GET''" "req_pathname req = ''/status/'' @ ident" "ident \<noteq> []"
      "CHR ''/'' \<notin> set ident" "client_fault w = Some m \<or> store_fault w = Some m"
    obtain more where s: "split CHR ''/'' (req_pathname req) = [] # ''status'' # ident # more"
      using status_segments[of ident "[]"] h(2,4) by auto
    have r: "route req w st = Inr (status_route req w st, st, None)"
      using h(1,2) status_path_routes[of ident] by (simp add: route_def)
    show "fetch req w st = (json_response 500 (error_body ''Failed to fetch job status''), st, None)"
      using h(1,3,5) by (auto simp: fetch_def r status_route_def s doc_get_def split: option.splits)
  qed
  have d: "resp_status (fst (fetch req w st)) = 500 \<longrightarrow>
      resp_body (fst (fetch req w st)) = Some (error_body ''Internal server error'') \<or>
      resp_body (fst (fetch req w st)) = Some (error_body ''Failed to fetch job status'')"
    by (auto simp: fetch_def route_def generate_route_def status_route_def json_response_def
        doc_set_def Let_def split: if_splits sum.splits option.splits jsval.splits)
  from a b c d show ?thesis by blast
qed

text \<open>C9 as stated fails: a failure while fetching the record in the status handler is
  answered with another body.\<close>

theorem internal_failures_counterexample:
  "fetch (get_status ''abc'') store_unavailable Map.empty =
     (json_response 500 (error_body ''Failed to fetch job status''), Map.empty, None) \<and>
   resp_body (fst (fetch (get_status ''abc'') store_unavailable Map.empty)) \<noteq>
     Some (error_body ''Internal server error'')"
  by (simp add: fetch_def route_def status_route_def get_status_def store_unavailable_def
      startsWith_def doc_get_def json_response_def error_body_def)


text \<open>The theorem at a \<^verbatim>\<open>null\<close> body, and at a store that rejects the write of the record
  and the read of the status.\<close>

theorem internal_failures_witness:
  "fetch (post_generate JNull) world_ok Map.empty =
     (json_response 500 (error_body ''Internal server error''), Map.empty, None) \<and>
   fetch (post_generate (paris 3)) store_unavailable Map.empty =
     (json_response 500 (error_body ''Internal server error''), Map.empty, None) \<and>
   fetch (get_status ''abc'') store_unavailable Map.empty =
     (json_response 500 (error_body ''Failed to fetch job status''), Map.empty, None) \<and>
   resp_status (fst (fetch (get_status ''abc'') store_unavailable Map.empty)) = 500 \<and>
   resp_body (fst (fetch (get_status ''abc'') store_unavailable Map.empty)) =
     Some (error_body ''Failed to fetch job status'')"
proof -
  note a = internal_failures[where req = "post_generate JNull" and w = world_ok and st = Map.empty]
  note b = internal_failures[where req = "post_generate (paris 3)" and w = store_unavailable
      and st = Map.empty and fs = "[(''destination'', JStr ''Paris''), (''durationDays'', JNum 3)]"
      and n = 3 and m = "''14 UNAVAILABLE''"]
  note c = internal_failures[where req = "get_status ''abc''" and w = store_unavailable
      and st = Map.empty and ident = "''abc''" and m = "''14 UNAVAILABLE''"]
  have p: "\<And>b. req_method (post_generate b) = ''POST'' \<and> req_pathname (post_generate b) = ''/generate''
      \<and> req_json (post_generate b) = Inr b"
    by (simp add: post_generate_def)
  have g: "\<And>i. req_method (get_status i) = ''GET'' \<and> req_pathname (get_status i) = ''/status/'' @ i"
    by (simp add: get_status_def)
  have u: "store_fault store_unavailable = Some ''14 UNAVAILABLE''"
    by (simp add: store_unavailable_def)
  have f: "truthy (field [(''destination'', JStr ''Paris''), (''durationDays'', JNum 3)] ''destination'') \<and>
     field [(''destination'', JStr ''Paris''), (''durationDays'', JNum 3)] ''durationDays'' = JNum 3"
    by (simp add: field_def)
  show ?thesis
    using a b c f by (simp add: p g u paris_def json_response_def)
qed


section \<open>What the schemas accept and what they give\<close>

lemma those_map_none: "those (map f xs) = None \<longleftrightarrow> \<not> list_all (\<lambda>x. f x \<noteq> None) xs"
  by (induction xs) (auto split: option.splits)

lemma those_map_some:
  "those (map f xs) = Some ys \<Longrightarrow> (\<And>x y. f x = Some y \<Longrightarrow> P y) \<Longrightarrow> list_all P ys"
  by (induction xs arbitrary: ys) (auto split: option.splits)

lemma z_string_if: "z_string v = (if is_str v then Some v else None)"
  by (cases v) (simp_all add: z_string_def is_str_def)

lemma z_number_if: "z_number v = (if is_num v then Some v else None)"
  by (cases v) (simp_all add: z_number_def is_num_def)

lemma is_str_defined [simp]: "is_str v \<Longrightarrow> v \<noteq> JUndefined"
  by (auto simp: is_str_def)

lemma is_num_defined [simp]: "is_num v \<Longrightarrow> v \<noteq> JUndefined"
  by (auto simp: is_num_def)

lemma z_object_not_object: "\<forall>fs. v \<noteq> JObj fs \<Longrightarrow> z_object shape v = None"
  by (cases v) (auto simp: z_object_def)

lemma ActivitySchema_object:
  "ActivitySchema (JObj fs) =
     (if is_str (field fs ''time'') \<and> is_str (field fs ''description'') \<and> is_str (field fs ''location'')
      then Some (JObj [(''time'', field fs ''time''), (''description'', field fs ''description''),
                       (''location'', field fs ''location'')])
      else None)"
  by (simp add: ActivitySchema_def z_object_def z_string_if)

lemma ActivitySchema_accepts: "ActivitySchema v = None \<longleftrightarrow> \<not> activity_shape v"
proof (cases "\<exists>fs. v = JObj fs")
  case True
  then show ?thesis by (auto simp: ActivitySchema_object activity_shape_def)
next
  case False
  then have "ActivitySchema v = None" by (simp add: ActivitySchema_def z_object_not_object)
  moreover have "\<not> activity_shape v" using False by (cases v) (simp_all add: activity_shape_def)
  ultimately show ?thesis by simp
qed

lemma ActivitySchema_gives: "ActivitySchema v = Some v' \<Longrightarrow> activity_record v'"
proof (cases "\<exists>fs. v = JObj fs")
  case True
  assume "ActivitySchema v = Some v'"
  with True show ?thesis
    by (auto simp: ActivitySchema_object activity_record_def split: if_splits)
next
  case False
  then have "ActivitySchema v = None" by (simp add: ActivitySchema_def z_object_not_object)
  moreover assume "ActivitySchema v = Some v'"
  ultimately show ?thesis by simp
qed

lemma activities_accepts: "z_array ActivitySchema v = None \<longleftrightarrow>
   \<not> (case v of JArr acts \<Rightarrow> list_all activity_shape acts | _ \<Rightarrow> False)"
  by (cases v) (simp_all add: z_array_def those_map_none ActivitySchema_accepts)

lemma activities_gives: "z_array ActivitySchema v = Some v' \<Longrightarrow>
   \<exists>acts. v' = JArr acts \<and> list_all activity_record acts"
  by (cases v) (auto simp: z_array_def dest: those_map_some[where P = activity_record] ActivitySchema_gives)

lemma DaySchema_object:
  "DaySchema (JObj fs) =
     (if is_num (field fs ''day'') \<and> is_str (field fs ''theme'') then
        (case z_array ActivitySchema (field fs ''activities'') of
           None \<Rightarrow> None
         | Some acts \<Rightarrow> Some (JObj [(''day'', field fs ''day''), (''theme'', field fs ''theme''),
                                   (''activities'', acts)]))
      else None)"
  using activities_gives[of "field fs ''activities''"]
  by (auto simp: DaySchema_def z_object_def z_string_if z_number_if split: option.splits)

lemma DaySchema_accepts: "DaySchema v = None \<longleftrightarrow> \<not> day_shape v"
proof (cases "\<exists>fs. v = JObj fs")
  case True
  then obtain fs where v: "v = JObj fs" by blast
  show ?thesis
    using activities_accepts[of "field fs ''activities''"]
    by (auto simp: v DaySchema_object day_shape_def split: option.splits)
next
  case False
  then have "DaySchema v = None" by (simp add: DaySchema_def z_object_not_object)
  moreover have "\<not> day_shape v" using False by (cases v) (simp_all add: day_shape_def)
  ultimately show ?thesis by simp
qed

lemma DaySchema_gives: "DaySchema v = Some v' \<Longrightarrow> day_record v'"
proof (cases "\<exists>fs. v = JObj fs")
  case True
  then obtain fs where v: "v = JObj fs" by blast
  assume "DaySchema v = Some v'"
  then show ?thesis
    using activities_gives[of "field fs ''activities''"]
    by (auto simp: v DaySchema_object day_record_def field_def split: if_splits option.splits)
next
  case False
  then have "DaySchema v = None" by (simp add: DaySchema_def z_object_not_object)
  moreover assume "DaySchema v = Some v'"
  ultimately show ?thesis by simp
qed

lemma days_accepts: "z_array DaySchema v = None \<longleftrightarrow> \<not> itinerary_shape v"
  by (cases v) (simp_all add: z_array_def those_map_none DaySchema_accepts itinerary_shape_def)

lemma days_gives: "z_array DaySchema v = Some v' \<Longrightarrow>
   \<exists>days. v' = JArr days \<and> list_all day_record days"
  by (cases v) (auto simp: z_array_def dest: those_map_some[where P = day_record] DaySchema_gives)

lemma ItinerarySchema_itineraryData:
  "ItinerarySchema (JObj
      [(''status'', JStr ''completed''),
       (''destination'', destination),
       (''durationDays'', durationDays),
       (''createdAt'', ServerTimestamp),
       (''completedAt'', ServerTimestamp),
       (''itinerary'', itinerary),
       (''error'', JNull)]) =
   (if is_str destination \<and> is_num durationDays then
      (case z_array DaySchema itinerary of
         None \<Rightarrow> None
       | Some days \<Rightarrow> Some (JObj
           [(''status'', JStr ''completed''),
            (''destination'', destination),
            (''durationDays'', durationDays),
            (''createdAt'', ServerTimestamp),
            (''completedAt'', ServerTimestamp),
            (''itinerary'', days),
            (''error'', JNull)]))
    else None)"
  by (simp add: ItinerarySchema_def z_object_def z_enum_def z_string_if z_number_if z_any_def
      z_nullable_def field_def split: option.splits)


section \<open>The generation pipeline\<close>

text \<open>The exceptions that reach the \<^verbatim>\<open>catch\<close> of the pipeline have a message, provided those
  the platform and the libraries raise do.\<close>

lemma js_prop_message: "js_prop v p = Inl e \<Longrightarrow> message e \<noteq> []"
  by (cases v) (auto simp: cannot_read_def)

lemma js_index0_message: "js_index0 v = Inl e \<Longrightarrow> message e \<noteq> []"
  by (cases v) (auto simp: cannot_read_def)

lemma attempt_message:
  assumes "callOpenAI_attempt rt r = Inl e" and "fetch_message_ok r"
  shows "message e \<noteq> []"
proof (cases r)
  case (FetchThrows m)
  with assms show ?thesis by (auto simp: callOpenAI_attempt_def fetch_message_ok_def)
next
  case (FetchResponse code body)
  show ?thesis
  proof (cases body)
    case (Inl m)
    with assms FetchResponse show ?thesis
      by (auto simp: callOpenAI_attempt_def fetch_message_ok_def split: if_splits)
  next
    case (Inr data)
    with assms(1) FetchResponse show ?thesis
      by (auto simp: callOpenAI_attempt_def Let_def
          dest: js_prop_message js_index0_message split: if_splits sum.splits option.splits jsval.splits)
  qed
qed

lemma callOpenAI_message:
  assumes "callOpenAI rt net = (Inl e, evs)" and "\<forall>n. fetch_message_ok (net n)"
  shows "message e \<noteq> []"
proof -
  from assms(1) have "callOpenAI_attempt rt (net 3) = Inl e"
    by (auto simp: callOpenAI_unfold split: sum.splits)
  with assms(2) show ?thesis by (auto dest: attempt_message)
qed

lemma doc_update_gives:
  assumes "doc_update fault t st j d = Inr st'"
  shows "\<exists>old. fault = None \<and> st j = Some old \<and> st' = st(j \<mapsto> merge_fields old (resolve t d))"
  using assms by (auto simp: doc_update_def split: option.splits)

lemma doc_update_message:
  assumes "doc_update fault t st j d = Inl e" and "fault_ok fault"
  shows "message e \<noteq> []"
  using assms by (auto simp: doc_update_def fault_ok_def split: option.splits)

lemma generate_fails:
  assumes "generate_and_store rt w j dest days st = (st', evs, Some e)"
  shows "st' = st"
    and "fault_ok (write_fault w) \<Longrightarrow> \<forall>n. fetch_message_ok (service w n) \<Longrightarrow>
         \<forall>v. zod_message rt v \<noteq> [] \<Longrightarrow> message e \<noteq> []"
  using assms
  by (auto simp: generate_and_store_def Let_def
      dest: callOpenAI_message js_prop_message doc_update_message
      split: prod.splits sum.splits option.splits)

lemma generate_succeeds:
  assumes "generate_and_store rt w j dest days st = (st', evs, None)"
  shows "\<exists>ai itin days_out old.
           callOpenAI rt (service w) = (Inr ai, evs) \<and> js_prop ai ''itinerary'' = Inr itin \<and>
           z_array DaySchema itin = Some days_out \<and> is_str dest \<and> is_num days \<and>
           st j = Some old \<and>
           st' = st(j \<mapsto> merge_fields old (resolve (write_time w)
                  [(''status'', JStr ''completed''),
                   (''destination'', dest),
                   (''durationDays'', days),
                   (''createdAt'', ServerTimestamp),
                   (''completedAt'', ServerTimestamp),
                   (''itinerary'', days_out),
                   (''error'', JNull)]))"
  using assms
  by (auto simp: generate_and_store_def Let_def ItinerarySchema_itineraryData fields_of_def
      dest!: doc_update_gives
      split: prod.splits sum.splits option.splits if_splits)


text \<open>The record a run of the pipeline leaves: the one it found, that one marked
  \<^verbatim>\<open>processing\<close>, one of these with the three fields of the failure write, or the marked one
  with the fields of the validated record.\<close>

lemma process_outcome:
  assumes run: "processItinerary rt w j dest days st = (st', evs, out)" and d0: "st j = Some d0"
  defines "M \<equiv> merge_fields d0 (resolve (mark_time w)
              [(''status'', JStr ''processing''), (''updatedAt'', ServerTimestamp)])"
  shows "\<exists>d'. st' = st(j \<mapsto> d') \<and>
     (d' = d0 \<or> d' = M \<or>
      (\<exists>e base. (base = d0 \<or> base = M) \<and>
         (fault_ok (mark_fault w) \<and> fault_ok (write_fault w) \<and>
          (\<forall>n. fetch_message_ok (service w n)) \<and> (\<forall>v. zod_message rt v \<noteq> []) \<longrightarrow>
            message e \<noteq> []) \<and>
         d' = merge_fields base (resolve (fail_time w)
                [(''status'', JStr ''failed''),
                 (''completedAt'', ServerTimestamp),
                 (''error'', JStr (message e))])) \<or>
      (\<exists>ai itin days_out.
         callOpenAI rt (service w) = (Inr ai, evs) \<and> js_prop ai ''itinerary'' = Inr itin \<and>
         z_array DaySchema itin = Some days_out \<and> is_str dest \<and> is_num days \<and>
         d' = merge_fields M (resolve (write_time w)
                [(''status'', JStr ''completed''),
                 (''destination'', dest),
                 (''durationDays'', days),
                 (''createdAt'', ServerTimestamp),
                 (''completedAt'', ServerTimestamp),
                 (''itinerary'', days_out),
                 (''error'', JNull)])))"
proof (cases "init_fault w")
  case (Some m)
  with run d0 have "st' = st(j \<mapsto> d0)"
    by (auto simp: processItinerary_def)
  then show ?thesis by blast
next
  case None
  show ?thesis
  proof (cases "mark_processing w j st")
    case (Inl e)
    then have m: "fault_ok (mark_fault w) \<longrightarrow> message e \<noteq> []"
      by (auto simp: mark_processing_def dest: doc_update_message)
    show ?thesis
    proof (cases "record_failure w j e st")
      case (Inl e')
      with run None \<open>mark_processing w j st = Inl e\<close> d0 have "st' = st(j \<mapsto> d0)"
        by (auto simp: processItinerary_def)
      then show ?thesis by blast
    next
      case (Inr st'')
      with run None \<open>mark_processing w j st = Inl e\<close> have "st' = st''"
        by (auto simp: processItinerary_def)
      with Inr d0 have "st' = st(j \<mapsto> merge_fields d0 (resolve (fail_time w)
                [(''status'', JStr ''failed''),
                 (''completedAt'', ServerTimestamp),
                 (''error'', JStr (message e))]))"
        by (auto simp: record_failure_def dest!: doc_update_gives)
      with m show ?thesis by blast
    qed
  next
    case (Inr st1)
    with d0 have st1: "st1 = st(j \<mapsto> M)"
      by (auto simp: mark_processing_def M_def dest!: doc_update_gives)
    obtain st2 evs2 out2 where g: "generate_and_store rt w j dest days st1 = (st2, evs2, out2)"
      by (cases "generate_and_store rt w j dest days st1") auto
    show ?thesis
    proof (cases out2)
      case None
      with run \<open>init_fault w = None\<close> Inr g have r: "st' = st2" "evs = evs2"
        by (auto simp: processItinerary_def)
      from generate_succeeds[OF g[unfolded None]] st1 r show ?thesis
        by auto
    next
      case (Some e)
      from generate_fails[OF g[unfolded Some]]
      have e: "st2 = st1" "fault_ok (write_fault w) \<and>
          (\<forall>n. fetch_message_ok (service w n)) \<and> (\<forall>v. zod_message rt v \<noteq> []) \<longrightarrow>
            message e \<noteq> []"
        by auto
      show ?thesis
      proof (cases "record_failure w j e st1")
        case (Inl e')
        with run \<open>init_fault w = None\<close> Inr g Some e have "st' = st1"
          by (auto simp: processItinerary_def)
        with st1 show ?thesis by blast
      next
        case (Inr st'')
        with run \<open>init_fault w = None\<close> \<open>mark_processing w j st = Inr st1\<close> g Some e
        have "st' = st''"
          by (auto simp: processItinerary_def)
        with Inr st1 have "st' = st(j \<mapsto> merge_fields M (resolve (fail_time w)
                [(''status'', JStr ''failed''),
                 (''completedAt'', ServerTimestamp),
                 (''error'', JStr (message e))]))"
          by (auto simp: record_failure_def dest!: doc_update_gives)
        with e show ?thesis by blast
      qed
    qed
  qed
qed


lemma is_str_not_sentinel [simp]: "is_str v \<Longrightarrow> v \<noteq> ServerTimestamp"
  by (auto simp: is_str_def)

lemma is_num_not_sentinel [simp]: "is_num v \<Longrightarrow> v \<noteq> ServerTimestamp"
  by (auto simp: is_num_def)

lemma created_fields:
  "status_of (created_record dest days t) = JStr ''processing''"
  "field (created_record dest days t) ''status'' = JStr ''processing''"
  "field (created_record dest days t) ''itinerary'' = JArr []"
  "field (created_record dest days t) ''createdAt'' = Timestamp t"
  "field (created_record dest days t) ''error'' = JNull"
  "field (created_record dest days t) ''completedAt'' = JNull"
  by (simp_all add: created_record_def resolve_def field_def status_of_def)

section \<open>The pipeline called on its own\<close>

lemma sample_day_parsed: "z_array DaySchema (JArr [sample_day]) = Some (JArr [sample_day])"
proof -
  have "DaySchema sample_day = Some sample_day"
    by (simp add: DaySchema_object sample_day_def field_def is_num_def is_str_def z_array_def
        ActivitySchema_object)
  then show ?thesis
    by (simp add: z_array_def)
qed

lemma sample_validated:
  "ItinerarySchema (itineraryData (JStr ''Paris'') (JNum 3) (JArr [sample_day])) =
   Some (itineraryData (JStr ''Paris'') (JNum 3) (JArr [sample_day]))"
  by (simp add: itineraryData_def ItinerarySchema_itineraryData sample_day_parsed is_str_def
      is_num_def)

lemma sample_run_answered:
  "processItinerary sample_runtime alone_answered sample_job (JStr ''Paris'') (JNum 3)
     [sample_job \<mapsto> created_record (JStr ''Paris'') (JNum 3) 1000] =
   ([sample_job \<mapsto> sample_completed], [Fetch 1], None)"
proof -
  have n: "is_str (JStr ''Paris'')" "is_num (JNum 3)"
    by (simp_all add: is_str_def is_num_def)
  show ?thesis
    by (simp add: processItinerary_def mark_processing_def generate_and_store_def
        doc_update_def callOpenAI_unfold alone_answered_def sample_attempt_ok sample_reply_def
        field_def ItinerarySchema_itineraryData sample_day_parsed n fields_of_def merge_fields_def
        resolve_def created_record_def sample_completed_def del: One_nat_def)
qed

text \<open>What the validation gives for the record built from an answer.\<close>

lemma validation_gives:
  assumes "ItinerarySchema (itineraryData destination durationDays itinerary) = Some v"
  shows "\<exists>days. z_array DaySchema itinerary = Some (JArr days) \<and> list_all day_record days \<and>
           v = itineraryData destination durationDays (JArr days)"
    and "is_str destination" and "is_num durationDays" and "itinerary_shape itinerary"
proof -
  from assms have a: "is_str destination" "is_num durationDays"
    and b: "\<exists>ds. z_array DaySchema itinerary = Some ds \<and>
               v = itineraryData destination durationDays ds"
    by (auto simp: itineraryData_def ItinerarySchema_itineraryData split: if_splits option.splits)
  from a show "is_str destination" and "is_num durationDays" .
  from b days_gives show "\<exists>days. z_array DaySchema itinerary = Some (JArr days) \<and>
      list_all day_record days \<and> v = itineraryData destination durationDays (JArr days)"
    by blast
  from b days_accepts[of itinerary] show "itinerary_shape itinerary"
    by auto
qed

lemma validation_rejects:
  "\<not> itinerary_shape itinerary \<Longrightarrow>
   ItinerarySchema (itineraryData destination durationDays itinerary) = None"
  using days_accepts[of itinerary]
  by (simp add: itineraryData_def ItinerarySchema_itineraryData)

text \<open>A record that is completed after a run and was not before has the fields of the success
  write.\<close>

lemma completed_by_run:
  assumes run: "processItinerary rt w jobId destination durationDays st = (st', evs, out)"
    and d0: "st jobId = Some d0" "status_of d0 \<noteq> JStr ''completed''"
    and d: "st' jobId = Some d" "status_of d = JStr ''completed''"
  shows "\<exists>ai itin days.
           callOpenAI rt (service w) = (Inr ai, evs) \<and> js_prop ai ''itinerary'' = Inr itin \<and>
           z_array DaySchema itin = Some (JArr days) \<and> list_all day_record days \<and>
           itinerary_shape itin \<and> is_str destination \<and> is_num durationDays \<and>
           init_fault w = None \<and>
           d = merge_fields
                 (merge_fields d0 (resolve (mark_time w)
                    [(''status'', JStr ''processing''), (''updatedAt'', ServerTimestamp)]))
                 (resolve (write_time w) (fields_of (itineraryData destination durationDays (JArr days))))"
proof -
  let ?M = "merge_fields d0 (resolve (mark_time w)
              [(''status'', JStr ''processing''), (''updatedAt'', ServerTimestamp)])"
  have i: "init_fault w = None"
  proof (rule ccontr)
    assume "init_fault w \<noteq> None"
    with run have "st' = st" by (auto simp: processItinerary_def)
    with d0 d show False by simp
  qed
  have m: "status_of ?M = JStr ''processing''"
    by (simp add: status_of_def merge_fields_def resolve_def)
  have f: "\<And>e base. status_of (merge_fields base (resolve (fail_time w)
                [(''status'', JStr ''failed''),
                 (''completedAt'', ServerTimestamp),
                 (''error'', JStr (message e))])) = JStr ''failed''"
    by (simp add: status_of_def merge_fields_def resolve_def)
  from process_outcome[OF run d0(1)] obtain d' where p: "st' = st(jobId \<mapsto> d')" and q:
    "d' = d0 \<or> d' = ?M \<or>
      (\<exists>e base. (base = d0 \<or> base = ?M) \<and>
         (fault_ok (mark_fault w) \<and> fault_ok (write_fault w) \<and>
          (\<forall>n. fetch_message_ok (service w n)) \<and> (\<forall>v. zod_message rt v \<noteq> []) \<longrightarrow>
            message e \<noteq> []) \<and>
         d' = merge_fields base (resolve (fail_time w)
                [(''status'', JStr ''failed''),
                 (''completedAt'', ServerTimestamp),
                 (''error'', JStr (message e))])) \<or>
      (\<exists>ai itin days_out.
         callOpenAI rt (service w) = (Inr ai, evs) \<and> js_prop ai ''itinerary'' = Inr itin \<and>
         z_array DaySchema itin = Some days_out \<and> is_str destination \<and> is_num durationDays \<and>
         d' = merge_fields ?M (resolve (write_time w)
                [(''status'', JStr ''completed''),
                 (''destination'', destination),
                 (''durationDays'', durationDays),
                 (''createdAt'', ServerTimestamp),
                 (''completedAt'', ServerTimestamp),
                 (''itinerary'', days_out),
                 (''error'', JNull)]))"
    by blast
  from p d(1) have dd: "d' = d"
    by simp
  have n1: "d' \<noteq> d0"
    using d0(2) d(2) dd by auto
  have n2: "d' \<noteq> ?M"
    using m d(2) dd by auto
  have n3: "\<not> (\<exists>e base. d' = merge_fields base (resolve (fail_time w)
                [(''status'', JStr ''failed''),
                 (''completedAt'', ServerTimestamp),
                 (''error'', JStr (message e))]))"
    using f d(2) dd by auto
  from q n1 n2 n3 dd obtain ai itin days_out where c:
    "callOpenAI rt (service w) = (Inr ai, evs)" "js_prop ai ''itinerary'' = Inr itin"
    "z_array DaySchema itin = Some days_out" "is_str destination" "is_num durationDays"
    "d = merge_fields ?M (resolve (write_time w)
                [(''status'', JStr ''completed''),
                 (''destination'', destination),
                 (''durationDays'', durationDays),
                 (''createdAt'', ServerTimestamp),
                 (''completedAt'', ServerTimestamp),
                 (''itinerary'', days_out),
                 (''error'', JNull)])"
    by blast
  from days_gives[OF c(3)] obtain days where g: "days_out = JArr days" "list_all day_record days"
    by blast
  from c(3) days_accepts[of itin] have h: "itinerary_shape itin"
    by auto
  have "d = merge_fields ?M
              (resolve (write_time w) (fields_of (itineraryData destination durationDays (JArr days))))"
    using c(6) g(1) by (simp add: itineraryData_def fields_of_def)
  with c g h i show ?thesis
    by blast
qed


text \<open>
  C2, as the code has it. \<^verbatim>\<open>ItinerarySchema\<close> accepts the record built from an answer of the model
  exactly when the answer's itinerary is an array of objects with a numeric \<^verbatim>\<open>day\<close>, a string
  \<^verbatim>\<open>theme\<close> and an array \<^verbatim>\<open>activities\<close> of objects with string \<^verbatim>\<open>time\<close>, \<^verbatim>\<open>description\<close> and
  \<^verbatim>\<open>location\<close>; what it gives holds day records of these fields only. A record that a run of
  \<^verbatim>\<open>processItinerary\<close>, past its initialisation, turns to \<^verbatim>\<open>completed\<close> holds such an itinerary, and
  the answer of the model had that shape. Nothing compares the number of days with
  \<^verbatim>\<open>durationDays\<close>, counts the activities of a day, or asks a string not to be empty.
\<close>

theorem validation_shape:
  "(ItinerarySchema (itineraryData destination durationDays itinerary) = Some v \<longrightarrow>
      itinerary_shape itinerary \<and>
      (\<exists>days. field (fields_of v) ''itinerary'' = JArr days \<and> list_all day_record days)) \<and>
   (\<not> itinerary_shape itinerary \<longrightarrow>
      ItinerarySchema (itineraryData destination durationDays itinerary) = None) \<and>
   (init_fault w = None \<and> st jobId = Some d0 \<and> status_of d0 \<noteq> JStr ''completed'' \<and>
    processItinerary rt w jobId destination durationDays st = (st', evs, out) \<and>
    st' jobId = Some d \<and> status_of d = JStr ''completed'' \<longrightarrow>
      (\<exists>days. field d ''itinerary'' = JArr days \<and> list_all day_record days) \<and>
      (\<exists>ai itin. callOpenAI rt (service w) = (Inr ai, evs) \<and>
         js_prop ai ''itinerary'' = Inr itin \<and> itinerary_shape itin))"
proof -
  have a: "ItinerarySchema (itineraryData destination durationDays itinerary) = Some v \<longrightarrow>
      itinerary_shape itinerary \<and>
      (\<exists>days. field (fields_of v) ''itinerary'' = JArr days \<and> list_all day_record days)"
  proof
    assume h: "ItinerarySchema (itineraryData destination durationDays itinerary) = Some v"
    from validation_gives(1)[OF h] obtain days where
      "list_all day_record days" "v = itineraryData destination durationDays (JArr days)"
      by blast
    then have "field (fields_of v) ''itinerary'' = JArr days \<and> list_all day_record days"
      by (simp add: itineraryData_def fields_of_def field_def)
    with validation_gives(4)[OF h] show "itinerary_shape itinerary \<and>
      (\<exists>days. field (fields_of v) ''itinerary'' = JArr days \<and> list_all day_record days)"
      by blast
  qed
  have b: "\<not> itinerary_shape itinerary \<longrightarrow>
      ItinerarySchema (itineraryData destination durationDays itinerary) = None"
    by (simp add: validation_rejects)
  have c: "init_fault w = None \<and> st jobId = Some d0 \<and> status_of d0 \<noteq> JStr ''completed'' \<and>
    processItinerary rt w jobId destination durationDays st = (st', evs, out) \<and>
    st' jobId = Some d \<and> status_of d = JStr ''completed'' \<longrightarrow>
      (\<exists>days. field d ''itinerary'' = JArr days \<and> list_all day_record days) \<and>
      (\<exists>ai itin. callOpenAI rt (service w) = (Inr ai, evs) \<and>
         js_prop ai ''itinerary'' = Inr itin \<and> itinerary_shape itin)"
  proof (intro impI, elim conjE)
    assume h: "st jobId = Some d0" "status_of d0 \<noteq> JStr ''completed''"
      "processItinerary rt w jobId destination durationDays st = (st', evs, out)"
      "st' jobId = Some d" "status_of d = JStr ''completed''"
    from completed_by_run[OF h(3) h(1) h(2) h(4) h(5)] obtain ai itin days where r:
      "callOpenAI rt (service w) = (Inr ai, evs)" "js_prop ai ''itinerary'' = Inr itin"
      "list_all day_record days" "itinerary_shape itin"
      "d = merge_fields
                 (merge_fields d0 (resolve (mark_time w)
                    [(''status'', JStr ''processing''), (''updatedAt'', ServerTimestamp)]))
                 (resolve (write_time w) (fields_of (itineraryData destination durationDays (JArr days))))"
      by blast
    from r(5) have "field d ''itinerary'' = JArr days"
      by (simp add: itineraryData_def fields_of_def merge_fields_def resolve_def)
    with r show "(\<exists>days. field d ''itinerary'' = JArr days \<and> list_all day_record days) \<and>
      (\<exists>ai itin. callOpenAI rt (service w) = (Inr ai, evs) \<and>
         js_prop ai ''itinerary'' = Inr itin \<and> itinerary_shape itin)"
      by blast
  qed
  from a b c show ?thesis by blast
qed

text \<open>The theorem at the sample itinerary, at an answer with no itinerary, and at
  \<^verbatim>\<open>processItinerary\<close> called on its own on the record as created.\<close>

theorem validation_shape_witness:
  "ItinerarySchema (itineraryData (JStr ''Paris'') (JNum 3) (JArr [sample_day])) =
     Some (itineraryData (JStr ''Paris'') (JNum 3) (JArr [sample_day])) \<and>
   itinerary_shape (JArr [sample_day]) \<and>
   (\<exists>days. field (fields_of (itineraryData (JStr ''Paris'') (JNum 3) (JArr [sample_day]))) ''itinerary'' =
      JArr days \<and> list_all day_record days) \<and>
   \<not> itinerary_shape JUndefined \<and>
   ItinerarySchema (itineraryData (JStr ''Paris'') (JNum 3) JUndefined) = None \<and>
   init_fault alone_answered = None \<and>
   status_of (created_record (JStr ''Paris'') (JNum 3) 1000) \<noteq> JStr ''completed'' \<and>
   processItinerary sample_runtime alone_answered sample_job (JStr ''Paris'') (JNum 3)
     [sample_job \<mapsto> created_record (JStr ''Paris'') (JNum 3) 1000] =
     ([sample_job \<mapsto> sample_completed], [Fetch 1], None) \<and>
   status_of sample_completed = JStr ''completed'' \<and>
   (\<exists>days. field sample_completed ''itinerary'' = JArr days \<and> list_all day_record days)"
proof -
  note a = validation_shape[where destination = "JStr ''Paris''" and durationDays = "JNum 3"
      and itinerary = "JArr [sample_day]"
      and v = "itineraryData (JStr ''Paris'') (JNum 3) (JArr [sample_day])"]
  note b = validation_shape[where destination = "JStr ''Paris''" and durationDays = "JNum 3"
      and itinerary = JUndefined]
  note c = validation_shape[where destination = "JStr ''Paris''" and durationDays = "JNum 3"
      and w = alone_answered and rt = sample_runtime and jobId = sample_job
      and st = "[sample_job \<mapsto> created_record (JStr ''Paris'') (JNum 3) 1000]"
      and ?d0.0 = "created_record (JStr ''Paris'') (JNum 3) 1000"
      and st' = "[sample_job \<mapsto> sample_completed]" and evs = "[Fetch 1]" and out = None
      and d = sample_completed]
  have u: "\<not> itinerary_shape JUndefined"
    by (simp add: itinerary_shape_def)
  have i: "init_fault alone_answered = None"
    by (simp add: alone_answered_def)
  have s: "status_of sample_completed = JStr ''completed''"
    by (simp add: status_of_def field_def sample_completed_def)
  show ?thesis
    using a b c u i s sample_validated sample_run_answered
    by (simp add: created_fields)
qed

text \<open>C2 as stated fails: for a job of three days the validation accepts the sample answer,
  an itinerary of one day with one activity, whose location is the empty string.\<close>

theorem validation_shape_counterexample:
  "callOpenAI sample_runtime (\<lambda>n. sample_answer) = (Inr sample_reply, [Fetch 1]) \<and>
   js_prop sample_reply ''itinerary'' = Inr (JArr [sample_day]) \<and>
   ItinerarySchema (itineraryData (JStr ''Paris'') (JNum 3) (JArr [sample_day])) =
     Some (itineraryData (JStr ''Paris'') (JNum 3) (JArr [sample_day])) \<and>
   field (fields_of (itineraryData (JStr ''Paris'') (JNum 3) (JArr [sample_day]))) ''durationDays'' = JNum 3 \<and>
   field (fields_of (itineraryData (JStr ''Paris'') (JNum 3) (JArr [sample_day]))) ''itinerary'' =
     JArr [sample_day] \<and>
   \<not> full_day sample_day \<and>
   \<not> full_itinerary (fields_of (itineraryData (JStr ''Paris'') (JNum 3) (JArr [sample_day])))"
proof -
  have c: "callOpenAI sample_runtime (\<lambda>n. sample_answer) = (Inr sample_reply, [Fetch 1])"
    by (simp add: callOpenAI_unfold sample_attempt_ok del: One_nat_def)
  have d: "\<not> full_day sample_day"
    by (simp add: full_day_def sample_day_def field_def)
  show ?thesis
    using c d sample_validated
    by (simp add: sample_reply_def field_def itineraryData_def fields_of_def full_itinerary_def)
qed


lemma payload_fields:
  assumes "ItinerarySchema (itineraryData destination durationDays itinerary) = Some v"
  shows "field (fields_of v) ''status'' = JStr ''completed''"
    and "field (fields_of v) ''destination'' = destination"
    and "field (fields_of v) ''durationDays'' = durationDays"
    and "field (fields_of v) ''completedAt'' = ServerTimestamp"
    and "field (fields_of v) ''error'' = JNull"
    and "\<exists>days. field (fields_of v) ''itinerary'' = JArr days \<and> list_all day_record days"
proof -
  from validation_gives(1)[OF assms] obtain days where
    v: "v = itineraryData destination durationDays (JArr days)" and l: "list_all day_record days"
    by blast
  show "field (fields_of v) ''status'' = JStr ''completed''"
    and "field (fields_of v) ''destination'' = destination"
    and "field (fields_of v) ''durationDays'' = durationDays"
    and "field (fields_of v) ''completedAt'' = ServerTimestamp"
    and "field (fields_of v) ''error'' = JNull"
    by (simp_all add: v itineraryData_def fields_of_def field_def)
  have "field (fields_of v) ''itinerary'' = JArr days"
    by (simp add: v itineraryData_def fields_of_def field_def)
  with l show "\<exists>days. field (fields_of v) ''itinerary'' = JArr days \<and> list_all day_record days"
    by blast
qed

lemma merge_fields_other:
  "k \<notin> fst ` set new \<Longrightarrow> field (merge_fields old new) k = field old k"
proof (induction new arbitrary: old)
  case Nil
  then show ?case by (simp add: merge_fields_def)
next
  case (Cons a new)
  obtain k' v' where a: "a = (k', v')" by (cases a)
  from Cons.prems a have "k \<noteq> k'" "k \<notin> fst ` set new" by auto
  with Cons.IH[of "AList.update k' v' old"] a show ?case
    by (simp add: merge_fields_def)
qed

lemma resolve_keys: "fst ` set (resolve t d) = fst ` set d"
  by (force simp: resolve_def)

lemma completed_fields:
  assumes "is_str destination" and "is_num durationDays"
    and "d = merge_fields
                 (merge_fields d0 (resolve tm
                    [(''status'', JStr ''processing''), (''updatedAt'', ServerTimestamp)]))
                 (resolve tw (fields_of (itineraryData destination durationDays (JArr days))))"
  shows "field d ''destination'' = destination"
    and "field d ''durationDays'' = durationDays"
    and "field d ''createdAt'' = Timestamp tw"
    and "field d ''completedAt'' = Timestamp tw"
    and "field d ''itinerary'' = JArr days"
    and "field d ''error'' = JNull"
    and "field d ''updatedAt'' = Timestamp tm"
    and "k \<notin> set schema_keys \<Longrightarrow> k \<noteq> ''updatedAt'' \<Longrightarrow> field d k = field d0 k"
proof -
  from assms show "field d ''destination'' = destination"
    and "field d ''durationDays'' = durationDays"
    and "field d ''createdAt'' = Timestamp tw"
    and "field d ''completedAt'' = Timestamp tw"
    and "field d ''itinerary'' = JArr days"
    and "field d ''error'' = JNull"
    and "field d ''updatedAt'' = Timestamp tm"
    by (simp_all add: itineraryData_def fields_of_def merge_fields_def resolve_def)
  assume k: "k \<notin> set schema_keys" "k \<noteq> ''updatedAt''"
  have a: "k \<notin> fst ` set (resolve tw (fields_of (itineraryData destination durationDays (JArr days))))"
    using k(1) unfolding resolve_keys by (simp add: itineraryData_def fields_of_def schema_keys_def)
  have b: "k \<notin> fst ` set (resolve tm [(''status'', JStr ''processing''), (''updatedAt'', ServerTimestamp)])"
    using k unfolding resolve_keys by (simp add: schema_keys_def)
  show "field d k = field d0 k"
    unfolding assms(3) by (simp only: merge_fields_other[OF a] merge_fields_other[OF b])
qed

text \<open>
  C8, as the code has it. The success path writes the whole validated record: the status
  \<^verbatim>\<open>completed\<close>, the destination and the \<^verbatim>\<open>durationDays\<close> given to the pipeline, the time of the
  write as completion time, the validated itinerary and a null error. A record that a run of
  \<^verbatim>\<open>processItinerary\<close>, past its initialisation, turns to \<^verbatim>\<open>completed\<close> holds these, and its fields
  outside the validated record's, \<^verbatim>\<open>updatedAt\<close> apart, are as they were. The destination and
  the \<^verbatim>\<open>durationDays\<close> given to the pipeline are those of the record that \<^verbatim>\<open>fetch\<close> created.
\<close>

theorem success_write:
  "(ItinerarySchema (itineraryData destination durationDays itinerary) = Some v \<longrightarrow>
      field (fields_of v) ''status'' = JStr ''completed'' \<and>
      field (fields_of v) ''destination'' = destination \<and>
      field (fields_of v) ''durationDays'' = durationDays \<and>
      field (fields_of v) ''completedAt'' = ServerTimestamp \<and>
      field (fields_of v) ''error'' = JNull \<and>
      (\<exists>days. field (fields_of v) ''itinerary'' = JArr days \<and> list_all day_record days)) \<and>
   (init_fault w = None \<and> st jobId = Some d0 \<and> status_of d0 \<noteq> JStr ''completed'' \<and>
    processItinerary rt w jobId destination durationDays st = (st', evs, out) \<and>
    st' jobId = Some d \<and> status_of d = JStr ''completed'' \<longrightarrow>
      field d ''destination'' = destination \<and>
      field d ''durationDays'' = durationDays \<and>
      field d ''completedAt'' = Timestamp (write_time w) \<and>
      field d ''error'' = JNull \<and>
      (\<exists>days. field d ''itinerary'' = JArr days \<and> list_all day_record days) \<and>
      (\<forall>k. k \<notin> set schema_keys \<and> k \<noteq> ''updatedAt'' \<longrightarrow> field d k = field d0 k)) \<and>
   (fetch req rw st0 = (resp, st1, Some t) \<longrightarrow>
      st1 (task_job t) = Some (created_record (task_destination t) (task_days t) (store_time rw)))"
proof -
  have a: "ItinerarySchema (itineraryData destination durationDays itinerary) = Some v \<longrightarrow>
      field (fields_of v) ''status'' = JStr ''completed'' \<and>
      field (fields_of v) ''destination'' = destination \<and>
      field (fields_of v) ''durationDays'' = durationDays \<and>
      field (fields_of v) ''completedAt'' = ServerTimestamp \<and>
      field (fields_of v) ''error'' = JNull \<and>
      (\<exists>days. field (fields_of v) ''itinerary'' = JArr days \<and> list_all day_record days)"
    by (simp add: payload_fields)
  have b: "init_fault w = None \<and> st jobId = Some d0 \<and> status_of d0 \<noteq> JStr ''completed'' \<and>
    processItinerary rt w jobId destination durationDays st = (st', evs, out) \<and>
    st' jobId = Some d \<and> status_of d = JStr ''completed'' \<longrightarrow>
      field d ''destination'' = destination \<and>
      field d ''durationDays'' = durationDays \<and>
      field d ''completedAt'' = Timestamp (write_time w) \<and>
      field d ''error'' = JNull \<and>
      (\<exists>days. field d ''itinerary'' = JArr days \<and> list_all day_record days) \<and>
      (\<forall>k. k \<notin> set schema_keys \<and> k \<noteq> ''updatedAt'' \<longrightarrow> field d k = field d0 k)"
  proof (intro impI, elim conjE)
    assume h: "st jobId = Some d0" "status_of d0 \<noteq> JStr ''completed''"
      "processItinerary rt w jobId destination durationDays st = (st', evs, out)"
      "st' jobId = Some d" "status_of d = JStr ''completed''"
    from completed_by_run[OF h(3) h(1) h(2) h(4) h(5)] obtain days where r:
      "list_all day_record days" "is_str destination" "is_num durationDays"
      "d = merge_fields
                 (merge_fields d0 (resolve (mark_time w)
                    [(''status'', JStr ''processing''), (''updatedAt'', ServerTimestamp)]))
                 (resolve (write_time w) (fields_of (itineraryData destination durationDays (JArr days))))"
      by blast
    note c = completed_fields[OF r(2) r(3) r(4)]
    from c(5) r(1) have "\<exists>days. field d ''itinerary'' = JArr days \<and> list_all day_record days"
      by blast
    with c(1) c(2) c(4) c(6) c(8)
    show "field d ''destination'' = destination \<and>
      field d ''durationDays'' = durationDays \<and>
      field d ''completedAt'' = Timestamp (write_time w) \<and>
      field d ''error'' = JNull \<and>
      (\<exists>days. field d ''itinerary'' = JArr days \<and> list_all day_record days) \<and>
      (\<forall>k. k \<notin> set schema_keys \<and> k \<noteq> ''updatedAt'' \<longrightarrow> field d k = field d0 k)"
      by simp
  qed
  have c: "fetch req rw st0 = (resp, st1, Some t) \<longrightarrow>
      st1 (task_job t) = Some (created_record (task_destination t) (task_days t) (store_time rw))"
    by (auto dest!: fetch_accepts)
  from a b c show ?thesis by blast
qed

text \<open>The theorem at the sample itinerary, at \<^verbatim>\<open>processItinerary\<close> called on its own on the record
  as created, and at the request that creates that record.\<close>

theorem success_write_witness:
  "ItinerarySchema (itineraryData (JStr ''Paris'') (JNum 3) (JArr [sample_day])) =
     Some (itineraryData (JStr ''Paris'') (JNum 3) (JArr [sample_day])) \<and>
   field (fields_of (itineraryData (JStr ''Paris'') (JNum 3) (JArr [sample_day]))) ''destination'' =
     JStr ''Paris'' \<and>
   init_fault alone_answered = None \<and>
   status_of (created_record (JStr ''Paris'') (JNum 3) 1000) \<noteq> JStr ''completed'' \<and>
   processItinerary sample_runtime alone_answered sample_job (JStr ''Paris'') (JNum 3)
     [sample_job \<mapsto> created_record (JStr ''Paris'') (JNum 3) 1000] =
     ([sample_job \<mapsto> sample_completed], [Fetch 1], None) \<and>
   status_of sample_completed = JStr ''completed'' \<and>
   field sample_completed ''destination'' = JStr ''Paris'' \<and>
   field sample_completed ''durationDays'' = JNum 3 \<and>
   field sample_completed ''completedAt'' = Timestamp 5000 \<and>
   field sample_completed ''error'' = JNull \<and>
   field sample_completed ''notes'' = field (created_record (JStr ''Paris'') (JNum 3) 1000) ''notes'' \<and>
   fetch (post_generate (paris 3)) world_ok Map.empty =
     (json_response 202
        (JObj [(''jobId'', JStr sample_job), (''message'', JStr ''Itinerary generation started'')]),
      [sample_job \<mapsto> created_record (JStr ''Paris'') (JNum 3) 1000],
      Some \<lparr>task_job = sample_job, task_destination = JStr ''Paris'', task_days = JNum 3\<rparr>) \<and>
   [sample_job \<mapsto> created_record (JStr ''Paris'') (JNum 3) 1000] sample_job =
     Some (created_record (JStr ''Paris'') (JNum 3) 1000)"
proof -
  note a = success_write[where destination = "JStr ''Paris''" and durationDays = "JNum 3"
      and itinerary = "JArr [sample_day]"
      and v = "itineraryData (JStr ''Paris'') (JNum 3) (JArr [sample_day])"
      and w = alone_answered and rt = sample_runtime and jobId = sample_job
      and st = "[sample_job \<mapsto> created_record (JStr ''Paris'') (JNum 3) 1000]"
      and ?d0.0 = "created_record (JStr ''Paris'') (JNum 3) 1000"
      and st' = "[sample_job \<mapsto> sample_completed]" and evs = "[Fetch 1]" and out = None
      and d = sample_completed
      and req = "post_generate (paris 3)" and rw = world_ok and ?st0.0 = Map.empty
      and resp = "json_response 202
        (JObj [(''jobId'', JStr sample_job), (''message'', JStr ''Itinerary generation started'')])"
      and ?st1.0 = "[sample_job \<mapsto> created_record (JStr ''Paris'') (JNum 3) 1000]"
      and t = "\<lparr>task_job = sample_job, task_destination = JStr ''Paris'', task_days = JNum 3\<rparr>"]
  have i: "init_fault alone_answered = None"
    by (simp add: alone_answered_def)
  have s: "status_of sample_completed = JStr ''completed''"
    by (simp add: status_of_def field_def sample_completed_def)
  have p: "fetch (post_generate (paris 3)) world_ok Map.empty =
     (json_response 202
        (JObj [(''jobId'', JStr sample_job), (''message'', JStr ''Itinerary generation started'')]),
      [sample_job \<mapsto> created_record (JStr ''Paris'') (JNum 3) 1000],
      Some \<lparr>task_job = sample_job, task_destination = JStr ''Paris'', task_days = JNum 3\<rparr>)"
    using post_paris[of 3 Map.empty] by simp
  have t: "write_time alone_answered = 5000" "store_time world_ok = 1000"
    by (simp_all add: alone_answered_def world_ok_def)
  have k: "''notes'' \<notin> set schema_keys \<and> ''notes'' \<noteq> ''updatedAt''"
    by (simp add: schema_keys_def)
  show ?thesis
    using a i s p k sample_validated sample_run_answered
    by (simp add: created_fields t)
qed

text \<open>C8 as stated fails: the record given to \<^verbatim>\<open>update\<close> has seven fields, not three; \<^verbatim>\<open>destination\<close>,
  \<^verbatim>\<open>durationDays\<close>, \<^verbatim>\<open>error\<close> and \<^verbatim>\<open>createdAt\<close> are among them, the last as a server timestamp to be
  assigned at the write.\<close>

theorem success_write_counterexample:
  "ItinerarySchema (itineraryData (JStr ''Paris'') (JNum 3) (JArr [sample_day])) =
     Some (itineraryData (JStr ''Paris'') (JNum 3) (JArr [sample_day])) \<and>
   map fst (fields_of (itineraryData (JStr ''Paris'') (JNum 3) (JArr [sample_day]))) =
     [''status'', ''destination'', ''durationDays'', ''createdAt'', ''completedAt'',
      ''itinerary'', ''error''] \<and>
   field (fields_of (itineraryData (JStr ''Paris'') (JNum 3) (JArr [sample_day]))) ''createdAt'' =
     ServerTimestamp \<and>
   set (map fst (fields_of (itineraryData (JStr ''Paris'') (JNum 3) (JArr [sample_day])))) \<noteq>
     {''status'', ''itinerary'', ''completedAt''}"
proof -
  have "''createdAt'' \<in> set (map fst (fields_of (itineraryData (JStr ''Paris'') (JNum 3) (JArr [sample_day]))))"
    by (simp add: itineraryData_def fields_of_def)
  moreover have "''createdAt'' \<notin> {''status'', ''itinerary'', ''completedAt''}"
    by simp
  ultimately have "set (map fst (fields_of (itineraryData (JStr ''Paris'') (JNum 3) (JArr [sample_day])))) \<noteq>
     {''status'', ''itinerary'', ''completedAt''}"
    by metis
  then show ?thesis
    using sample_validated
    by (simp add: itineraryData_def fields_of_def field_def)
qed


section \<open>Requests served in sequence\<close>





lemma as_created_not_terminal: "as_created d \<Longrightarrow> \<not> terminal d"
  by (simp add: as_created_def terminal_def)
















end
